theory Spec2Isabelle
  imports Main "HOL-Library.Multiset"
begin

section \<open>Data model (src/types/db.d.ts, src/lib/validations/message.ts)\<close>

text \<open>
  Identifiers are JavaScript strings. Timestamps are the integers that \<open>Date.now()\<close>
  yields (milliseconds since the epoch), so they are modelled as \<open>int\<close>.
  The field \<open>id\<close> of the source is called \<open>chat_id\<close>, \<open>msg_id\<close> and \<open>user_id\<close> here,
  because one HOL name cannot be the field of three records; \<open>text\<close> and \<open>image\<close> are
  \<open>msg_text\<close> and \<open>user_image\<close>, the plain names being taken by Isabelle.
\<close>

record User =
  user_name :: string
  email :: string
  user_image :: string
  user_id :: string

record Chat =
  chat_id :: string
  name :: string
  memberIds :: "string list"
  createdAt :: "int option"

record Message =
  msg_id :: string
  chatId :: string
  senderId :: string
  msg_text :: string
  timestamp :: int

text \<open>The reserved chat name that marks a two-member chat as a direct message.\<close>

definition SENTINEL :: string where
  "SENTINEL = ''Direct message''"

section \<open>Message list of the client (the Messages component)\<close>

datatype status = pending | sent | failed

text \<open>
  \<open>interface ExtendedMessage extends Message { status?: ...; tempId?: string }\<close>:
  both added fields are optional.
\<close>

record ExtendedMessage = Message +
  status :: "status option"
  tempId :: "string option"

text \<open>\<open>Array.prototype.findIndex\<close>; the source's \<open>-1\<close> is \<open>None\<close>.\<close>

fun findIndex :: "('a \<Rightarrow> bool) \<Rightarrow> 'a list \<Rightarrow> nat option" where
  "findIndex P [] = None"
| "findIndex P (x # xs) = (if P x then Some 0 else map_option Suc (findIndex P xs))"

text \<open>The object literal \<open>{ ...message, status: "sent" }\<close>: no \<open>tempId\<close>.\<close>

definition asSent :: "Message \<Rightarrow> ExtendedMessage" where
  "asSent message = Message.extend message \<lparr>status = Some sent, tempId = None\<rparr>"

text \<open>The predicate handed to \<open>findIndex\<close> in \<open>messageHandler\<close>.\<close>

definition isOptimisticFor :: "Message \<Rightarrow> ExtendedMessage \<Rightarrow> bool" where
  "isOptimisticFor message msg \<longleftrightarrow>
     status msg = Some pending \<and>
     msg_text msg = msg_text message \<and>
     senderId msg = senderId message \<and>
     \<bar>timestamp msg - timestamp message\<bar> < 2000 \<and>
     msg_id msg \<noteq> msg_id message"

text \<open>
  \<open>messageHandler\<close> bound to \<open>incoming-message\<close> on the channel of chat \<open>cid\<close>
  (the component's \<open>chatId\<close> prop). The function is the state update passed to
  \<open>setMessages\<close>, guarded by the early return for a message of another chat.
\<close>

definition messageHandler :: "string \<Rightarrow> Message \<Rightarrow> ExtendedMessage list \<Rightarrow> ExtendedMessage list" where
  "messageHandler cid message prev =
     (if chatId message \<noteq> cid then prev
      else if list_ex (\<lambda>msg. msg_id msg = msg_id message) prev then prev
      else (case findIndex (isOptimisticFor message) prev of
              Some optimisticMessageIndex \<Rightarrow> prev[optimisticMessageIndex := asSent message]
            | None \<Rightarrow> asSent message # prev))"

text \<open>
  The reconciliation rule in the specification's words: a local record matches a
  canonical message when it is pending, has the same sender and text, and its timestamp
  is less than 2000 ms away.
\<close>

definition reconcilable :: "Message \<Rightarrow> ExtendedMessage \<Rightarrow> bool" where
  "reconcilable message msg \<longleftrightarrow>
     status msg = Some pending \<and> senderId msg = senderId message \<and>
     msg_text msg = msg_text message \<and> \<bar>timestamp msg - timestamp message\<bar> < 2000"

definition knownId :: "Message \<Rightarrow> ExtendedMessage list \<Rightarrow> bool" where
  "knownId message prev \<longleftrightarrow> (\<exists>msg \<in> set prev. msg_id msg = msg_id message)"

definition countId :: "string \<Rightarrow> ExtendedMessage list \<Rightarrow> nat" where
  "countId i prev = length (filter (\<lambda>msg. msg_id msg = i) prev)"

section \<open>Server: store, broker and the effects of a request\<close>

text \<open>
  The Redis keys the routes use: \<open>chat:{id}\<close> (the chat entity as JSON), \<open>user:{id}:chats\<close>
  and \<open>user:{id}:friends\<close> (sets), \<open>chat:{id}:messages\<close> (a sorted set, score = timestamp)
  and \<open>user:{id}\<close> (the user as JSON). Values are held parsed. \<open>published\<close> is what the
  broker has been handed, in order.
\<close>

datatype channel =
    ChatChannel string        \<comment> \<open>\<open>toPusherKey(`chat:${id}`)\<close>\<close>
  | UserChatsChannel string   \<comment> \<open>\<open>toPusherKey(`user:${id}:chats`)\<close>\<close>

datatype payload =
    MessagePayload Message
  | NotificationPayload Message string string  \<comment> \<open>\<open>{ ...message, senderImg, senderName }\<close>\<close>
  | ChatPayload Chat
  | ChatUpdatePayload string Chat              \<comment> \<open>\<open>{ chatId, chat }\<close>\<close>
  | MemberPayload string Chat                  \<comment> \<open>\<open>{ memberId, chat }\<close>\<close>
  | RemovedPayload string string               \<comment> \<open>\<open>{ chatId, chatName }\<close>\<close>

datatype effect =
    DbSet Chat                 \<comment> \<open>\<open>db.set(`chat:${chat.id}`, JSON.stringify(chat))\<close>\<close>
  | DbSAdd string string       \<comment> \<open>\<open>db.sadd(`user:${u}:chats`, chatId)\<close>\<close>
  | DbSRem string string       \<comment> \<open>\<open>db.srem(`user:${u}:chats`, chatId)\<close>\<close>
  | DbZAdd string int Message  \<comment> \<open>\<open>db.zadd(`chat:${c}:messages`, { score, member })\<close>\<close>
  | DbZRem string Message      \<comment> \<open>\<open>db.zrem(`chat:${c}:messages`, member)\<close>\<close>
  | DbSetUndefinedMember string string
      \<comment> \<open>\<open>db.set(`chat:${id}`, ...)\<close> of the sentinel-named entity \<open>id\<close> with members \<open>[userId1, undefined]\<close>\<close>
  | Trigger channel string payload  \<comment> \<open>\<open>pusherServer.trigger(channel, event, payload)\<close>\<close>

record State =
  chats :: "string \<rightharpoonup> Chat"
  userChats :: "string \<Rightarrow> string set"
  friends :: "string \<Rightarrow> string set"
  messages :: "string \<Rightarrow> (int \<times> Message) list"
  users :: "string \<rightharpoonup> User"
  published :: "(channel \<times> string \<times> payload) list"

text \<open>
  A sorted set holds each member once, in ascending score. Redis orders members of equal
  score by their bytes; the model keeps them in order of arrival.
\<close>

definition zrem :: "(int \<times> Message) list \<Rightarrow> Message \<Rightarrow> (int \<times> Message) list" where
  "zrem log member = filter (\<lambda>e. snd e \<noteq> member) log"

fun zinsert :: "int \<Rightarrow> Message \<Rightarrow> (int \<times> Message) list \<Rightarrow> (int \<times> Message) list" where
  "zinsert score member [] = [(score, member)]"
| "zinsert score member (e # log) =
     (if score < fst e then (score, member) # e # log else e # zinsert score member log)"

definition zadd :: "(int \<times> Message) list \<Rightarrow> int \<Rightarrow> Message \<Rightarrow> (int \<times> Message) list" where
  "zadd log score member = zinsert score member (zrem log member)"

text \<open>
  \<open>chats\<close> holds the entities that are values of \<open>Chat\<close>. The entity that
  \<open>DbSetUndefinedMember\<close> writes is none, so the parsed store cannot show it and stays as
  it is; only the chat page issues that effect, for an id without separator.
\<close>

fun exec1 :: "State \<Rightarrow> effect \<Rightarrow> State" where
  "exec1 st (DbSet chat) = st\<lparr>chats := (chats st)(chat_id chat \<mapsto> chat)\<rparr>"
| "exec1 st (DbSAdd u c) = st\<lparr>userChats := (userChats st)(u := insert c (userChats st u))\<rparr>"
| "exec1 st (DbSRem u c) = st\<lparr>userChats := (userChats st)(u := userChats st u - {c})\<rparr>"
| "exec1 st (DbZAdd k score member) =
     st\<lparr>messages := (messages st)(k := zadd (messages st k) score member)\<rparr>"
| "exec1 st (DbZRem k member) = st\<lparr>messages := (messages st)(k := zrem (messages st k) member)\<rparr>"
| "exec1 st (Trigger ch event p) = st\<lparr>published := published st @ [(ch, event, p)]\<rparr>"
| "exec1 st (DbSetUndefinedMember c userId1) = st"

definition exec :: "State \<Rightarrow> effect list \<Rightarrow> State" where
  "exec st effects = foldl exec1 st effects"

datatype body = Text string | ChatBody Chat | MessageBody Message

datatype Response = Response body nat

fun statusOf :: "Response \<Rightarrow> nat" where
  "statusOf (Response b code) = code"

subsection \<open>JavaScript string helpers\<close>

text \<open>
  \<open>chatId.split("--")\<close>: the pieces between the occurrences of the separator, found from
  the left without overlap; a string without the separator is its only piece.
\<close>

fun splitDashes :: "string \<Rightarrow> string \<Rightarrow> string list" where
  "splitDashes acc [] = [rev acc]"
| "splitDashes acc [c] = [rev (c # acc)]"
| "splitDashes acc (c # d # cs) =
     (if c = CHR ''-'' \<and> d = CHR ''-'' then rev acc # splitDashes [] cs
      else splitDashes (c # acc) (d # cs))"

definition split :: "string \<Rightarrow> string list" where
  "split s = splitDashes [] s"

text \<open>
  \<open>String.prototype.trim\<close>. A \<open>char\<close> is one byte, so of the white space of ECMAScript
  the model has the characters up to U+00A0.
\<close>

definition isWhiteSpace :: "char \<Rightarrow> bool" where
  "isWhiteSpace c \<longleftrightarrow>
     c \<in> set [CHR 0x09, CHR 0x0A, CHR 0x0B, CHR 0x0C, CHR 0x0D, CHR 0x20, CHR 0xA0]"

definition trim :: "string \<Rightarrow> string" where
  "trim s = rev (dropWhile isWhiteSpace (rev (dropWhile isWhiteSpace s)))"

subsection \<open>Classification as the routes and components write it\<close>

text \<open>
  \<open>chat.memberIds.length === 2 && chat.name === "Direct message"\<close>, the expression of
  remove-member/route.ts, of the three sidebar handlers and of the layout's filters.
\<close>

definition isIndividualChat :: "Chat \<Rightarrow> bool" where
  "isIndividualChat chat \<longleftrightarrow> length (memberIds chat) = 2 \<and> name chat = SENTINEL"

section \<open>Server routes\<close>

text \<open>
  A route reads the store and answers with a response and the effects it has issued, in
  the order it issued them; \<open>exec\<close> gives the store afterwards. \<open>session\<close> is the id of the
  signed-in user, if any. \<open>nanoid()\<close> and \<open>Date.now()\<close> are the arguments \<open>newId\<close> and
  \<open>now\<close>. A local constant of the source that has the name of a record field is primed.
\<close>

subsection \<open>Sending a message (src/unnamed/part_001)\<close>

text \<open>
  Without a stored chat the id is split and a two-member chat is bootstrapped. When the
  id has no separator \<open>userId2\<close> is \<open>undefined\<close>: then the sender has to be \<open>userId1\<close>, the
  other participant is \<open>undefined\<close>, which no friend list includes, and the request is
  refused. \<open>JSON.parse\<close> of a missing sender record is \<open>null\<close>, and \<open>sender.image\<close> throws
  as soon as the first notification of another member is built.
\<close>

definition bootstrap :: "State \<Rightarrow> string \<Rightarrow> string \<Rightarrow> Response + Chat \<times> effect list" where
  "bootstrap st senderId' chatId' =
     (case split chatId' of
        [] \<Rightarrow> Inl (Response (Text ''Unauthorized'') 401)
      | [userId1] \<Rightarrow> Inl (Response (Text ''Unauthorized'') 401)
      | userId1 # userId2 # rest \<Rightarrow>
          if senderId' \<noteq> userId1 \<and> senderId' \<noteq> userId2
          then Inl (Response (Text ''Unauthorized'') 401)
          else let otherParticipantId = (if senderId' = userId1 then userId2 else userId1);
                   isFriend = (otherParticipantId \<in> friends st senderId')
               in if \<not> isFriend then Inl (Response (Text ''Unauthorized'') 401)
                  else let chat = \<lparr>chat_id = chatId', name = SENTINEL,
                                     memberIds = [userId1, userId2], createdAt = None\<rparr>
                       in Inr (chat, [DbSet chat, DbSAdd userId1 (chat_id chat),
                                      DbSAdd userId2 (chat_id chat)]))"

definition POST_send ::
  "State \<Rightarrow> string option \<Rightarrow> string \<Rightarrow> string \<Rightarrow> string \<Rightarrow> int \<Rightarrow> Response \<times> effect list" where
  "POST_send st session text' chatId' newId now =
     (case session of
        None \<Rightarrow> (Response (Text ''Unauthorized'') 401, [])
      | Some senderId' \<Rightarrow>
          (case (case chats st chatId' of
                   None \<Rightarrow> bootstrap st senderId' chatId'
                 | Some chat \<Rightarrow>
                     if senderId' \<notin> set (memberIds chat)
                     then Inl (Response (Text ''Unauthorized'') 401)
                     else Inr (chat, [])) of
             Inl refusal \<Rightarrow> (refusal, [])
           | Inr (chat, created) \<Rightarrow>
               let message = \<lparr>msg_id = newId, chatId = chat_id chat, senderId = senderId',
                                msg_text = text', timestamp = now\<rparr>;
                   incoming = Trigger (ChatChannel (chat_id chat)) ''incoming-message''
                                (MessagePayload message);
                   otherMemberIds = filter (\<lambda>i. i \<noteq> senderId') (memberIds chat);
                   save = DbZAdd (chat_id chat) now message
               in (case users st senderId' of
                     None \<Rightarrow>
                       if otherMemberIds = []
                       then (Response (Text ''OK'') 200, created @ [incoming, save])
                       else (Response (Text ''TypeError'') 500, created @ [incoming])
                   | Some sender \<Rightarrow>
                       (Response (Text ''OK'') 200,
                        created @ [incoming] @
                        map (\<lambda>memberId. Trigger (UserChatsChannel memberId) ''new_message''
                               (NotificationPayload message (user_image sender) (user_name sender)))
                          otherMemberIds @
                        [save]))))"

subsection \<open>Removing a member (src/app/api/chat/remove-member/route.ts)\<close>

text \<open>The writes and publications of the final \<open>Promise.all\<close> are listed in the order of its array.\<close>

definition POST_remove_member ::
  "State \<Rightarrow> string option \<Rightarrow> string \<Rightarrow> string \<Rightarrow> Response \<times> effect list" where
  "POST_remove_member st session chatId' memberId =
     (case session of
        None \<Rightarrow> (Response (Text ''Unauthorized'') 401, [])
      | Some requesterId \<Rightarrow>
          if chatId' = [] \<or> memberId = []
          then (Response (Text ''chatId and memberId are required.'') 400, [])
          else (case chats st chatId' of
                  None \<Rightarrow> (Response (Text ''Chat not found.'') 404, [])
                | Some chat \<Rightarrow>
                    if requesterId \<notin> set (memberIds chat)
                    then (Response (Text ''Only chat members can remove participants.'') 401, [])
                    else if isIndividualChat chat
                    then (Response (Text ''Cannot remove members from a direct message chat. Use remove friend instead.'') 400, [])
                    else if length (memberIds chat) \<le> 1
                    then (Response (Text ''Cannot remove the last member from a group.'') 400, [])
                    else if memberId \<notin> set (memberIds chat)
                    then (Response (Text ''User is not a member of this chat.'') 400, [])
                    else if memberId = requesterId
                    then (Response (Text ''You cannot remove yourself from the chat.'') 400, [])
                    else let updatedChat =
                               chat\<lparr>memberIds := filter (\<lambda>i. i \<noteq> memberId) (memberIds chat)\<rparr>
                         in (Response (ChatBody updatedChat) 200,
                             [DbSet updatedChat,
                              DbSRem memberId chatId',
                              Trigger (UserChatsChannel memberId) ''removed_from_chat''
                                (RemovedPayload chatId' (name chat)),
                              Trigger (ChatChannel chatId') ''member_removed''
                                (MemberPayload memberId updatedChat)] @
                             map (\<lambda>m. Trigger (UserChatsChannel m) ''chat_updated''
                                    (ChatUpdatePayload (chat_id updatedChat) updatedChat))
                               (memberIds updatedChat))))"

subsection \<open>Creating a chat (the chat/create route, in the file of chat/[chatId]/page.tsx)\<close>

text \<open>
  \<open>name\<close> is \<open>string | null | undefined\<close>: \<open>reqName = None\<close> is a request without a name.
  \<open>if (otherId)\<close> holds for a string that is found and not empty.
\<close>

definition POST_create ::
  "State \<Rightarrow> string option \<Rightarrow> string option \<Rightarrow> string list \<Rightarrow> string \<Rightarrow> int
     \<Rightarrow> Response \<times> effect list" where
  "POST_create st session reqName memberIds' newId now =
     (case session of
        None \<Rightarrow> (Response (Text ''Unauthorized'') 401, [])
      | Some requesterId \<Rightarrow>
          if length memberIds' < 1
          then (Response (Text ''A chat must have at least one member.'') 400, [])
          else if requesterId \<notin> set memberIds'
          then (Response (Text ''Requester must be a member of the chat.'') 400, [])
          else let trimmedName = (case reqName of None \<Rightarrow> [] | Some n \<Rightarrow> trim n) in
            if length memberIds' > 2 \<and> length trimmedName = 0
            then (Response (Text ''Group name is required for chats with more than 2 members.'') 400, [])
            else let finalName = (if length memberIds' = 2 \<and> length trimmedName = 0
                                  then SENTINEL else trimmedName) in
              if length memberIds' = 2 \<and>
                 (case find (\<lambda>i. i \<noteq> requesterId) memberIds' of
                    None \<Rightarrow> False
                  | Some otherId \<Rightarrow> otherId \<noteq> [] \<and> otherId \<notin> friends st requesterId)
              then (Response (Text ''Cannot create a direct message with a non-friend.'') 401, [])
              else let chat = \<lparr>chat_id = newId, name = finalName, memberIds = memberIds',
                                 createdAt = Some now\<rparr>;
                       otherMemberIds = filter (\<lambda>i. i \<noteq> requesterId) memberIds'
                   in (Response (ChatBody chat) 201,
                       [DbSet chat] @
                       map (\<lambda>memberId. DbSAdd memberId (chat_id chat)) memberIds' @
                       map (\<lambda>memberId. Trigger (UserChatsChannel memberId) ''added_to_chat''
                              (ChatUpdatePayload (chat_id chat) chat)) otherMemberIds @
                       map (\<lambda>memberId. Trigger (UserChatsChannel memberId) ''chat_created''
                              (ChatPayload chat)) otherMemberIds @
                       [Trigger (UserChatsChannel requesterId) ''chat_created'' (ChatPayload chat)]))"

subsection \<open>Editing a message (src/app/api/message/edit/route.ts)\<close>

definition POST_edit ::
  "State \<Rightarrow> string option \<Rightarrow> string \<Rightarrow> string \<Rightarrow> string \<Rightarrow> Response \<times> effect list" where
  "POST_edit st session messageId chatId' text' =
     (case session of
        None \<Rightarrow> (Response (Text ''Unauthorized'') 401, [])
      | Some senderId' \<Rightarrow>
          if messageId = [] \<or> chatId' = [] \<or> text' = []
          then (Response (Text ''messageId, chatId, and text are required.'') 400, [])
          else let trimmedText = trim text' in
            if length trimmedText = 0
            then (Response (Text ''Message text cannot be empty.'') 400, [])
            else (case chats st chatId' of
                    None \<Rightarrow> (Response (Text ''Chat not found.'') 404, [])
                  | Some chat \<Rightarrow>
                      if senderId' \<notin> set (memberIds chat)
                      then (Response (Text ''Unauthorized'') 401, [])
                      else let messages' = map snd (messages st chatId') in
                        (case findIndex (\<lambda>msg. msg_id msg = messageId) messages' of
                           None \<Rightarrow> (Response (Text ''Message not found.'') 404, [])
                         | Some messageIndex \<Rightarrow>
                             let originalMessage = messages' ! messageIndex in
                             if senderId originalMessage \<noteq> senderId'
                             then (Response (Text ''You can only edit your own messages.'') 403, [])
                             else let updatedMessage = originalMessage\<lparr>msg_text := trimmedText\<rparr>;
                                      stored = [DbZRem chatId' originalMessage,
                                                DbZAdd chatId' (timestamp originalMessage) updatedMessage,
                                                Trigger (ChatChannel chatId') ''message_edited''
                                                  (MessagePayload updatedMessage)];
                                      otherMemberIds = filter (\<lambda>i. i \<noteq> senderId') (memberIds chat)
                                  in (case users st senderId' of
                                        None \<Rightarrow>
                                          if otherMemberIds = []
                                          then (Response (MessageBody updatedMessage) 200, stored)
                                          else (Response (Text ''TypeError'') 500, stored)
                                      | Some sender \<Rightarrow>
                                          (Response (MessageBody updatedMessage) 200,
                                           stored @
                                           map (\<lambda>memberId. Trigger (UserChatsChannel memberId)
                                                  ''message_edited''
                                                  (NotificationPayload updatedMessage
                                                     (user_image sender) (user_name sender)))
                                             otherMemberIds)))))"

subsection \<open>The chat page (src/app/(dashboard)/dashboard/chat/[chatId]/page.tsx)\<close>

text \<open>
  \<open>notFound()\<close> throws, so nothing after it runs. \<open>participants\<close> holds \<open>JSON.parse\<close> of
  each member's user record, \<open>null\<close> for a missing one. \<open>participants.find\<close> reads \<open>p.id\<close>
  of each entry up to the first hit, so it throws a TypeError at a \<open>null\<close> entry:
  \<open>findPartner\<close> yields \<open>None\<close> for the exception and the page ends as \<open>Threw\<close>. The
  effects issued before an exception stay. The page is modelled up to the two
  classification flags its markup is built from.

  For an id without separator that is the user's own id the source goes on with
  \<open>userId2 = undefined\<close>: it writes an entity whose member list is \<open>[userId1, undefined]\<close>
  (the effect \<open>DbSetUndefinedMember\<close>), registers the chat under \<open>user:undefined:chats\<close>
  and reads \<open>user:undefined\<close> as the second participant. Two entries and the sentinel
  name make \<open>isTwoPersonChat\<close> true and \<open>isGroupChat\<close> false there.
\<close>

fun findPartner :: "string \<Rightarrow> User option list \<Rightarrow> User option option" where
  "findPartner uid [] = Some None"
| "findPartner uid (None # ps) = None"
| "findPartner uid (Some p # ps) = (if user_id p \<noteq> uid then Some (Some p) else findPartner uid ps)"

definition isGroupChat :: "nat \<Rightarrow> string \<Rightarrow> bool" where
  "isGroupChat participantsLength chatName \<longleftrightarrow>
     participantsLength > 2 \<or> (participantsLength \<ge> 1 \<and> chatName \<noteq> SENTINEL)"

definition isTwoPersonChat :: "nat \<Rightarrow> string \<Rightarrow> bool" where
  "isTwoPersonChat participantsLength chatName \<longleftrightarrow>
     participantsLength = 2 \<and> chatName = SENTINEL"

datatype PageResult =
    NotFound
  | Threw
  | Rendered Chat bool bool
  | RenderedUndefinedMember string string

text \<open>Lines 81 to 95 of the page: the participants, the two flags and \<open>chatPartner\<close>.\<close>

definition renderChat :: "State \<Rightarrow> string \<Rightarrow> Chat \<Rightarrow> PageResult" where
  "renderChat st user chat =
     (let participants = map (users st) (memberIds chat);
          groupFlag = isGroupChat (length participants) (name chat);
          twoPersonFlag = isTwoPersonChat (length participants) (name chat)
      in if twoPersonFlag
         then (case findPartner user participants of
                 None \<Rightarrow> Threw
               | Some chatPartner \<Rightarrow> Rendered chat groupFlag twoPersonFlag)
         else Rendered chat groupFlag twoPersonFlag)"

definition page :: "State \<Rightarrow> string option \<Rightarrow> string \<Rightarrow> PageResult \<times> effect list" where
  "page st session chatId' =
     (case session of
        None \<Rightarrow> (NotFound, [])
      | Some user \<Rightarrow>
          (case chats st chatId' of
             None \<Rightarrow>
               (case split chatId' of
                  [] \<Rightarrow> (NotFound, [])
                | [userId1] \<Rightarrow>
                    if user \<noteq> userId1 then (NotFound, [])
                    else ((case findPartner user [users st userId1, users st ''undefined''] of
                             None \<Rightarrow> Threw
                           | Some chatPartner \<Rightarrow> RenderedUndefinedMember chatId' userId1),
                          [DbSetUndefinedMember chatId' userId1, DbSAdd userId1 chatId',
                           DbSAdd ''undefined'' chatId'])
                | userId1 # userId2 # rest \<Rightarrow>
                    if user \<noteq> userId1 \<and> user \<noteq> userId2 then (NotFound, [])
                    else let chat = \<lparr>chat_id = chatId', name = SENTINEL,
                                       memberIds = [userId1, userId2], createdAt = None\<rparr>
                         in (renderChat st user chat,
                             [DbSet chat, DbSAdd userId1 (chat_id chat),
                              DbSAdd userId2 (chat_id chat)]))
           | Some chat \<Rightarrow>
               if user \<notin> set (memberIds chat) then (NotFound, [])
               else (renderChat st user chat, [])))"

section \<open>Sidebar list of the client (src/components/SidebarChatList.tsx)\<close>

text \<open>
  An entry of the list is \<open>{ chat, displayName }\<close>. The layout's entries carry more
  fields, so the records extend one another. A handler is the state update it passes to
  \<open>setActiveChats\<close>; the toast of \<open>addedToChatHandler\<close> is not part of the list.
\<close>

record ChatItem =
  item_chat :: Chat
  displayName :: string

datatype viewType = chatsView | groupsView  \<comment> \<open>\<open>"chats" | "groups"\<close>\<close>

definition chatUpdateHandler :: "string \<Rightarrow> Chat \<Rightarrow> ChatItem list \<Rightarrow> ChatItem list" where
  "chatUpdateHandler dataChatId dataChat prev =
     map (\<lambda>item.
            if chat_id (item_chat item) = dataChatId
            then \<lparr>item_chat = dataChat,
                  displayName = (if isIndividualChat dataChat then displayName item
                                 else name dataChat)\<rparr>
            else item) prev"

definition addedToChatHandler ::
  "viewType option \<Rightarrow> string \<Rightarrow> Chat \<Rightarrow> ChatItem list \<Rightarrow> ChatItem list" where
  "addedToChatHandler view dataChatId dataChat prev =
     (if list_ex (\<lambda>item. chat_id (item_chat item) = dataChatId) prev then prev
      else if view = Some chatsView \<and> \<not> isIndividualChat dataChat then prev
      else if view = Some groupsView \<and> isIndividualChat dataChat then prev
      else prev @ [\<lparr>item_chat = dataChat, displayName = name dataChat\<rparr>])"

definition chatCreatedHandler :: "viewType option \<Rightarrow> Chat \<Rightarrow> ChatItem list \<Rightarrow> ChatItem list" where
  "chatCreatedHandler view newChat prev =
     (if list_ex (\<lambda>item. chat_id (item_chat item) = chat_id newChat) prev then prev
      else if view = Some chatsView \<and> \<not> isIndividualChat newChat then prev
      else if view = Some groupsView \<and> isIndividualChat newChat then prev
      else prev @ [\<lparr>item_chat = newChat, displayName = name newChat\<rparr>])"

definition knownChat :: "string \<Rightarrow> ChatItem list \<Rightarrow> bool" where
  "knownChat i prev \<longleftrightarrow> i \<in> set (map (\<lambda>item. chat_id (item_chat item)) prev)"

section \<open>The two views of the dashboard layout (Layout, in the file of CreateGroupModal.tsx)\<close>

record TimedItem = ChatItem +
  latestMessageTimestamp :: "int option"
  item_createdAt :: "int option"

record FullItem = TimedItem +
  hasMessages :: bool
  chatPartner :: "User option"

text \<open>\<open>x || 0\<close> and \<open>x || null\<close> on a number that may be missing: \<open>0\<close> is falsy too.\<close>

definition orZero :: "int option \<Rightarrow> int" where
  "orZero x = (case x of None \<Rightarrow> 0 | Some t \<Rightarrow> t)"

definition orNull :: "int option \<Rightarrow> int option" where
  "orNull x = (case x of None \<Rightarrow> None | Some t \<Rightarrow> if t = 0 then None else Some t)"

text \<open>
  \<open>Array.prototype.sort\<close> with a comparator: a stable sort, here by insertion. An
  element goes in front of the first one that the comparator does not put before it.
\<close>

fun insertBy :: "('a \<Rightarrow> 'a \<Rightarrow> int) \<Rightarrow> 'a \<Rightarrow> 'a list \<Rightarrow> 'a list" where
  "insertBy cmp x [] = [x]"
| "insertBy cmp x (y # ys) = (if cmp x y \<le> 0 then x # y # ys else y # insertBy cmp x ys)"

definition sortBy :: "('a \<Rightarrow> 'a \<Rightarrow> int) \<Rightarrow> 'a list \<Rightarrow> 'a list" where
  "sortBy cmp xs = foldr (insertBy cmp) xs []"

text \<open>
  Loading one chat of the user. \<open>zrange key -1 -1\<close> is the member of highest score.
  \<open>JSON.parse\<close> of a missing value is \<open>null\<close>, and reading a field of \<open>null\<close> throws:
  \<open>None\<close> is the exception. \<open>find\<close> is \<open>findPartner\<close>, as on the chat page.
\<close>

definition loadItem :: "State \<Rightarrow> string \<Rightarrow> string \<Rightarrow> FullItem option" where
  "loadItem st sessionUserId chatId' =
     (case chats st chatId' of
        None \<Rightarrow> None
      | Some chat \<Rightarrow>
          let latest = (case messages st chatId' of
                          [] \<Rightarrow> None
                        | e # log \<Rightarrow> Some (timestamp (snd (last (e # log)))));
              participants = map (users st) (memberIds chat);
              twoPerson = (length participants = 2)
          in (case (if twoPerson
                    then (case findPartner sessionUserId participants of
                            None \<Rightarrow> None
                          | Some None \<Rightarrow> Some (hd participants)
                          | Some (Some p) \<Rightarrow> Some (Some p))
                    else Some None) of
                None \<Rightarrow> None
              | Some partner \<Rightarrow>
                  Some \<lparr>item_chat = chat,
                        displayName = (case partner of
                                         Some p \<Rightarrow> if twoPerson then user_name p else name chat
                                       | None \<Rightarrow> name chat),
                        latestMessageTimestamp = latest,
                        item_createdAt = orNull (createdAt chat),
                        hasMessages = (latest \<noteq> None),
                        chatPartner = (if twoPerson then partner else None)\<rparr>))"

text \<open>\<open>Promise.all\<close> over the chat ids: one exception fails the whole load.\<close>

fun loadItems :: "State \<Rightarrow> string \<Rightarrow> string list \<Rightarrow> FullItem list option" where
  "loadItems st sessionUserId [] = Some []"
| "loadItems st sessionUserId (c # cs) =
     (case loadItem st sessionUserId c of
        None \<Rightarrow> None
      | Some item \<Rightarrow> map_option ((#) item) (loadItems st sessionUserId cs))"

definition individualChats :: "FullItem list \<Rightarrow> FullItem list" where
  "individualChats chatsWithDisplayNameAndMessages =
     sortBy (\<lambda>a b. orZero (latestMessageTimestamp b) - orZero (latestMessageTimestamp a))
       (filter (\<lambda>item. hasMessages item \<and> length (memberIds (item_chat item)) = 2 \<and>
                        name (item_chat item) = SENTINEL)
          (filter hasMessages chatsWithDisplayNameAndMessages))"

definition groupChats :: "FullItem list \<Rightarrow> TimedItem list" where
  "groupChats chatsWithDisplayNameAndMessages =
     sortBy (\<lambda>a b. max (orZero (latestMessageTimestamp b)) (orZero (item_createdAt b)) -
                     max (orZero (latestMessageTimestamp a)) (orZero (item_createdAt a)))
       (map TimedItem.truncate
          (filter (\<lambda>item. if isIndividualChat (item_chat item) then False
                           else length (memberIds (item_chat item)) > 2 \<or>
                                (length (memberIds (item_chat item)) \<ge> 1 \<and>
                                 name (item_chat item) \<noteq> SENTINEL))
             chatsWithDisplayNameAndMessages))"

text \<open>
  \<open>Layout\<close>: \<open>chatIds\<close> is the answer of \<open>smembers user:{id}:chats\<close>, whose order Redis
  leaves open, so it is an argument. The result is the pair handed to \<open>ChatsList\<close>.
\<close>

definition Layout ::
  "State \<Rightarrow> string option \<Rightarrow> string list \<Rightarrow> (FullItem list \<times> TimedItem list) option" where
  "Layout st session chatIds =
     (case session of
        None \<Rightarrow> None
      | Some sessionUserId \<Rightarrow>
          (case loadItems st sessionUserId chatIds of
             None \<Rightarrow> None
           | Some items \<Rightarrow> Some (individualChats items, groupChats items)))"

text \<open>The sort keys in the specification's words.\<close>

definition directKey :: "'a TimedItem_scheme \<Rightarrow> int" where
  "directKey item = orZero (latestMessageTimestamp item)"

definition groupKey :: "'a TimedItem_scheme \<Rightarrow> int" where
  "groupKey item = max (orZero (item_createdAt item)) (orZero (latestMessageTimestamp item))"

definition descendingBy :: "('a \<Rightarrow> int) \<Rightarrow> 'a list \<Rightarrow> bool" where
  "descendingBy key xs = sorted_wrt (\<lambda>a b. key b \<le> key a) xs"

text \<open>
  The most recent message of a log in the specification's words: the greatest timestamp
  among its messages. The routes write every message at the score of its timestamp, so
  that a log is in ascending order of timestamp.
\<close>

definition mostRecent :: "(int \<times> Message) list \<Rightarrow> int option" where
  "mostRecent log =
     (if log = [] then None else Some (Max (set (map (\<lambda>e. timestamp (snd e)) log))))"

definition scoredByTimestamp :: "(int \<times> Message) list \<Rightarrow> bool" where
  "scoredByTimestamp log \<longleftrightarrow>
     sorted (map fst log) \<and> (\<forall>e \<in> set log. fst e = timestamp (snd e))"

fun savesAtTimestamp :: "effect \<Rightarrow> bool" where
  "savesAtTimestamp (DbZAdd k score member) = (score = timestamp member)"
| "savesAtTimestamp e = True"

section \<open>Example data\<close>

definition alice :: User where
  "alice = \<lparr>user_name = ''Alice'', email = ''alice@example.com'', user_image = ''a.png'', user_id = ''a''\<rparr>"

definition bob :: User where
  "bob = \<lparr>user_name = ''Bob'', email = ''bob@example.com'', user_image = ''b.png'', user_id = ''b''\<rparr>"

definition carol :: User where
  "carol = \<lparr>user_name = ''Carol'', email = ''carol@example.com'', user_image = ''c.png'', user_id = ''c''\<rparr>"

definition dm_ab :: Chat where
  "dm_ab = \<lparr>chat_id = ''a--b'', name = SENTINEL, memberIds = [''a'', ''b''], createdAt = None\<rparr>"

definition study :: Chat where
  "study = \<lparr>chat_id = ''g1'', name = ''Study Group'', memberIds = [''a'', ''b'', ''c''],
            createdAt = Some 50\<rparr>"

definition quiet :: Chat where
  "quiet = \<lparr>chat_id = ''g2'', name = ''Quiet'', memberIds = [''a'', ''c''], createdAt = Some 80\<rparr>"

definition hello :: Message where
  "hello = \<lparr>msg_id = ''m1'', chatId = ''g1'', senderId = ''a'', msg_text = ''hello'', timestamp = 100\<rparr>"

definition old_ab :: Message where
  "old_ab = \<lparr>msg_id = ''m0'', chatId = ''a--b'', senderId = ''a'', msg_text = ''hey'', timestamp = 10\<rparr>"

definition hi_ab :: Message where
  "hi_ab = \<lparr>msg_id = ''m2'', chatId = ''a--b'', senderId = ''b'', msg_text = ''hi'', timestamp = 90\<rparr>"

text \<open>
  Alice and Bob are friends and have a direct message with two messages, at 10 and at
  90; Carol is nobody's friend. The
  group \<open>study\<close> was created at 50 and has a message at 100; \<open>quiet\<close> was created at 80
  and has none.
\<close>

definition demo :: State where
  "demo = \<lparr>chats = [''a--b'' \<mapsto> dm_ab, ''g1'' \<mapsto> study, ''g2'' \<mapsto> quiet],
           userChats = (\<lambda>u. {})(''a'' := {''a--b'', ''g1'', ''g2''}, ''b'' := {''a--b'', ''g1''},
                                  ''c'' := {''g1'', ''g2''}),
           friends = (\<lambda>u. {})(''a'' := {''b''}, ''b'' := {''a''}),
           messages = (\<lambda>c. [])(''g1'' := [(100, hello)], ''a--b'' := [(10, old_ab), (90, hi_ab)]),
           users = [''a'' \<mapsto> alice, ''b'' \<mapsto> bob, ''c'' \<mapsto> carol],
           published = []\<rparr>"

section \<open>Kinds of effect\<close>

text \<open>\<open>isSave\<close>: the write of a message to a log. \<open>isMessageStep\<close>: what a send does with
  the message itself, a publication or the write to the log.\<close>

fun isSave :: "effect \<Rightarrow> bool" where
  "isSave (DbZAdd k score member) = True"
| "isSave e = False"

fun isMessageStep :: "effect \<Rightarrow> bool" where
  "isMessageStep (Trigger ch event p) = True"
| "isMessageStep (DbZAdd k score member) = True"
| "isMessageStep e = False"

text \<open>A chat of Alice alone that carries the sentinel name, as chat/create stores it when
  asked for the member list \<open>["a"]\<close> and the name \<open>"Direct message"\<close>.\<close>

definition solo :: Chat where
  "solo = \<lparr>chat_id = ''n1'', name = SENTINEL, memberIds = [''a''], createdAt = Some 7000\<rparr>"

section \<open>Properties of the message list\<close>

lemma findIndex_None: "findIndex P xs = None \<longleftrightarrow> (\<forall>x \<in> set xs. \<not> P x)"
  by (induction xs) auto

lemma findIndex_Some:
  "findIndex P xs = Some i \<longleftrightarrow> i < length xs \<and> P (xs ! i) \<and> (\<forall>j < i. \<not> P (xs ! j))"
proof (induction xs arbitrary: i)
  case Nil
  then show ?case by simp
next
  case (Cons x xs)
  show ?case
  proof (cases "P x")
    case True
    then show ?thesis by (cases i) auto
  next
    case False
    show ?thesis
    proof (cases i)
      case 0
      with False show ?thesis by auto
    next
      case (Suc k)
      have "(\<forall>j < Suc k. \<not> P ((x # xs) ! j)) \<longleftrightarrow> (\<forall>j < k. \<not> P (xs ! j))"
        using False by (auto simp: less_Suc_eq_0_disj)
      with False Suc Cons.IH [of k] show ?thesis by auto
    qed
  qed
qed

lemma msg_id_asSent [simp]: "msg_id (asSent message) = msg_id message"
  by (simp add: asSent_def Message.extend_def)

lemma status_asSent [simp]: "status (asSent message) = Some sent"
  by (simp add: asSent_def Message.extend_def)

lemma isOptimisticFor_reconcilable:
  "\<not> knownId message prev \<Longrightarrow> msg \<in> set prev \<Longrightarrow>
     isOptimisticFor message msg \<longleftrightarrow> reconcilable message msg"
  by (auto simp: isOptimisticFor_def reconcilable_def knownId_def)

lemma knownId_list_ex: "list_ex (\<lambda>msg. msg_id msg = msg_id message) prev \<longleftrightarrow> knownId message prev"
  by (simp add: knownId_def list_ex_iff)

lemma knownId_after:
  assumes "chatId message = cid"
  shows "knownId message (messageHandler cid message prev)"
proof (cases "knownId message prev")
  case True
  then show ?thesis using assms by (simp add: messageHandler_def knownId_list_ex)
next
  case False
  show ?thesis
  proof (cases "findIndex (isOptimisticFor message) prev")
    case None
    with False assms show ?thesis
      by (simp add: messageHandler_def knownId_list_ex) (simp add: knownId_def)
  next
    case (Some i)
    then have "i < length prev" by (simp add: findIndex_Some)
    then have "asSent message \<in> set (prev[i := asSent message])"
      by (rule set_update_memI)
    then have "knownId message (prev[i := asSent message])"
      unfolding knownId_def by (rule bexI [rotated]) simp
    with False Some assms show ?thesis
      by (simp add: messageHandler_def knownId_list_ex)
  qed
qed

lemma countId_update:
  "i < length prev \<Longrightarrow> msg_id (prev ! i) \<noteq> k \<Longrightarrow> msg_id m = k \<Longrightarrow>
     countId k (prev[i := m]) = Suc (countId k prev)"
proof (induction prev arbitrary: i)
  case Nil
  then show ?case by simp
next
  case (Cons x xs)
  then show ?case by (cases i) (auto simp: countId_def)
qed

lemma countId_zero: "\<not> knownId message prev \<Longrightarrow> countId (msg_id message) prev = 0"
  by (auto simp: countId_def knownId_def filter_empty_conv)

lemma messageHandler_known:
  "knownId message prev \<Longrightarrow> messageHandler cid message prev = prev"
  by (simp add: messageHandler_def knownId_list_ex)

lemma messageHandler_replace:
  assumes "chatId message = cid" and "\<not> knownId message prev"
    and "\<exists>msg \<in> set prev. reconcilable message msg"
  shows "\<exists>i < length prev. reconcilable message (prev ! i) \<and>
           (\<forall>j < i. \<not> reconcilable message (prev ! j)) \<and>
           messageHandler cid message prev = prev[i := asSent message]"
proof -
  from assms(2,3) have "\<not> (\<forall>msg \<in> set prev. \<not> isOptimisticFor message msg)"
    using isOptimisticFor_reconcilable by blast
  then obtain i where i: "findIndex (isOptimisticFor message) prev = Some i"
    using findIndex_None [of "isOptimisticFor message" prev] by fastforce
  then have len: "i < length prev"
    and hit: "isOptimisticFor message (prev ! i)"
    and first: "\<forall>j < i. \<not> isOptimisticFor message (prev ! j)"
    by (simp_all add: findIndex_Some)
  have "reconcilable message (prev ! i)"
    using hit isOptimisticFor_reconcilable [OF assms(2)] len by simp
  moreover have "\<forall>j < i. \<not> reconcilable message (prev ! j)"
    using first isOptimisticFor_reconcilable [OF assms(2)] len by simp
  moreover have "messageHandler cid message prev = prev[i := asSent message]"
    using assms(1,2) i by (simp add: messageHandler_def knownId_list_ex)
  ultimately show ?thesis using len by blast
qed

lemma messageHandler_prepend:
  assumes "chatId message = cid" and "\<not> knownId message prev"
    and "\<not> (\<exists>msg \<in> set prev. reconcilable message msg)"
  shows "messageHandler cid message prev = asSent message # prev"
proof -
  from assms(2,3) have "\<forall>msg \<in> set prev. \<not> isOptimisticFor message msg"
    using isOptimisticFor_reconcilable by blast
  then have "findIndex (isOptimisticFor message) prev = None"
    by (simp add: findIndex_None)
  with assms(1,2) show ?thesis
    by (simp add: messageHandler_def knownId_list_ex)
qed

lemma messageHandler_count_fresh:
  assumes "chatId message = cid" and "\<not> knownId message prev"
  shows "countId (msg_id message) (messageHandler cid message prev) = 1"
proof (cases "\<exists>msg \<in> set prev. reconcilable message msg")
  case True
  from messageHandler_replace [OF assms True] obtain i where
    i: "i < length prev" "messageHandler cid message prev = prev[i := asSent message]"
    by blast
  from assms(2) i(1) have "msg_id (prev ! i) \<noteq> msg_id message"
    by (auto simp: knownId_def)
  with i countId_update [of i prev "msg_id message" "asSent message"] countId_zero [OF assms(2)]
  show ?thesis by simp
next
  case False
  with messageHandler_prepend [OF assms False] countId_zero [OF assms(2)]
  show ?thesis by (simp add: countId_def)
qed

section \<open>C1: reconciliation of a canonical message with the local list\<close>

text \<open>
  Claim C1. A canonical message of the chat on display arrives on the chat's channel.
  If a record with its id is already in the list, the list stays as it is. Otherwise the
  first record that is pending, has the same sender and text and a timestamp less than
  2000 ms away is overwritten at its position by the canonical message with status
  \<open>sent\<close>; when there is no such record the canonical message, with status \<open>sent\<close>,
  is put in front. Delivering the same message a second time changes nothing, and a
  message whose id was unknown is afterwards held by exactly one record.
\<close>

theorem messageHandler_reconciliation:
  assumes "chatId message = cid"
  shows "(knownId message prev \<longrightarrow> messageHandler cid message prev = prev) \<and>
    (\<not> knownId message prev \<and> (\<exists>msg \<in> set prev. reconcilable message msg) \<longrightarrow>
       (\<exists>i < length prev. reconcilable message (prev ! i) \<and>
          (\<forall>j < i. \<not> reconcilable message (prev ! j)) \<and>
          messageHandler cid message prev = prev[i := asSent message])) \<and>
    (\<not> knownId message prev \<and> \<not> (\<exists>msg \<in> set prev. reconcilable message msg) \<longrightarrow>
       messageHandler cid message prev = asSent message # prev) \<and>
    Message.truncate (asSent message) = message \<and> status (asSent message) = Some sent \<and>
    messageHandler cid message (messageHandler cid message prev) = messageHandler cid message prev \<and>
    (\<not> knownId message prev \<longrightarrow>
       countId (msg_id message) (messageHandler cid message (messageHandler cid message prev)) = 1)"
proof -
  have twice: "messageHandler cid message (messageHandler cid message prev)
      = messageHandler cid message prev"
    using knownId_after [OF assms] by (rule messageHandler_known)
  have "Message.truncate (asSent message) = message"
    by (simp add: asSent_def Message.extend_def Message.truncate_def)
  with twice show ?thesis
    using messageHandler_known messageHandler_replace [OF assms]
      messageHandler_prepend [OF assms] messageHandler_count_fresh [OF assms]
    by simp
qed

text \<open>
  The optimistic record \<open>T\<close> of user \<open>U\<close> with text \<open>hi\<close> at time 1000, below a newer
  record of another user, and the canonical message \<open>M\<close> at time 1500: the record is
  replaced where it stands.
\<close>

theorem messageHandler_reconciliation_witness:
  "chatId \<lparr>msg_id = ''M'', chatId = ''c1'', senderId = ''U'', msg_text = ''hi'', timestamp = 1500\<rparr> = ''c1'' \<and>
   messageHandler ''c1''
     \<lparr>msg_id = ''M'', chatId = ''c1'', senderId = ''U'', msg_text = ''hi'', timestamp = 1500\<rparr>
     [\<lparr>msg_id = ''X'', chatId = ''c1'', senderId = ''V'', msg_text = ''yo'', timestamp = 1200,
        status = Some sent, tempId = None\<rparr>,
      \<lparr>msg_id = ''T'', chatId = ''c1'', senderId = ''U'', msg_text = ''hi'', timestamp = 1000,
        status = Some pending, tempId = Some ''T''\<rparr>]
   = [\<lparr>msg_id = ''X'', chatId = ''c1'', senderId = ''V'', msg_text = ''yo'', timestamp = 1200,
        status = Some sent, tempId = None\<rparr>,
      \<lparr>msg_id = ''M'', chatId = ''c1'', senderId = ''U'', msg_text = ''hi'', timestamp = 1500,
        status = Some sent, tempId = None\<rparr>]"
proof -
  let ?m = "\<lparr>msg_id = ''M'', chatId = ''c1'', senderId = ''U'', msg_text = ''hi'', timestamp = 1500\<rparr>"
  let ?x = "\<lparr>msg_id = ''X'', chatId = ''c1'', senderId = ''V'', msg_text = ''yo'', timestamp = 1200,
        status = Some sent, tempId = None\<rparr>"
  let ?t = "\<lparr>msg_id = ''T'', chatId = ''c1'', senderId = ''U'', msg_text = ''hi'', timestamp = 1000,
        status = Some pending, tempId = Some ''T''\<rparr>"
  have c: "chatId ?m = ''c1''" by simp
  have fresh: "\<not> knownId ?m [?x, ?t]" by (simp add: knownId_def)
  have cand: "\<exists>msg \<in> set [?x, ?t]. reconcilable ?m msg" by (simp add: reconcilable_def)
  from messageHandler_reconciliation [OF c, of "[?x, ?t]"] fresh cand
  obtain i where i: "i < length [?x, ?t]" "reconcilable ?m ([?x, ?t] ! i)"
    and r: "messageHandler ''c1'' ?m [?x, ?t] = [?x, ?t][i := asSent ?m]"
    by blast
  have "\<not> reconcilable ?m ([?x, ?t] ! 0)" by (simp add: reconcilable_def)
  with i have "i = 1" by (cases i) auto
  with r show ?thesis by (simp add: asSent_def Message.extend_def)
qed

section \<open>Properties of the server routes\<close>

lemma exec_Nil [simp]: "exec st [] = st"
  by (simp add: exec_def)

lemma exec_Cons [simp]: "exec st (e # es) = exec (exec1 st e) es"
  by (simp add: exec_def)

lemma exec_append: "exec st (es @ fs) = exec (exec st es) fs"
  by (simp add: exec_def)

lemma exec_triggers:
  "exec st (map (\<lambda>m. Trigger (c m) (ev m) (p m)) ms)
     = st\<lparr>published := published st @ map (\<lambda>m. (c m, ev m, p m)) ms\<rparr>"
  by (induction ms arbitrary: st) simp_all

lemma remove_leaves_someone:
  "requesterId \<in> set ms \<Longrightarrow> memberId \<noteq> requesterId \<Longrightarrow> filter (\<lambda>i. i \<noteq> memberId) ms \<noteq> []"
  by (auto simp: filter_empty_conv)

section \<open>C4: removing a member\<close>

text \<open>
  Claim C4. A RemoveMember request of a signed-in requester on a stored chat is answered
  with an error status, issues no effect and leaves the store as it was whenever the chat
  is classified as a direct message, or the removal would leave no member, or the target
  is the requester, or the requester is not a member, or the target is not a member.
  Every answer other than 200 comes without effects. An answer 200 means that none of the
  five conditions held, and then the stored chat has lost the target and the target's
  chat index has lost the chat.
\<close>

theorem remove_member_guarded:
  assumes "chats st chatId' = Some chat"
  shows "(isIndividualChat chat \<or> filter (\<lambda>i. i \<noteq> memberId) (memberIds chat) = [] \<or>
          memberId = requesterId \<or> requesterId \<notin> set (memberIds chat) \<or>
          memberId \<notin> set (memberIds chat) \<longrightarrow>
            400 \<le> statusOf (fst (POST_remove_member st (Some requesterId) chatId' memberId)) \<and>
            snd (POST_remove_member st (Some requesterId) chatId' memberId) = [] \<and>
            exec st (snd (POST_remove_member st (Some requesterId) chatId' memberId)) = st) \<and>
         (statusOf (fst (POST_remove_member st (Some requesterId) chatId' memberId)) \<noteq> 200 \<longrightarrow>
            snd (POST_remove_member st (Some requesterId) chatId' memberId) = []) \<and>
         (statusOf (fst (POST_remove_member st (Some requesterId) chatId' memberId)) = 200 \<longrightarrow>
            \<not> isIndividualChat chat \<and>
            filter (\<lambda>i. i \<noteq> memberId) (memberIds chat) \<noteq> [] \<and>
            memberId \<noteq> requesterId \<and> requesterId \<in> set (memberIds chat) \<and>
            memberId \<in> set (memberIds chat) \<and>
            chats (exec st (snd (POST_remove_member st (Some requesterId) chatId' memberId)))
              (chat_id chat)
              = Some (chat\<lparr>memberIds := filter (\<lambda>i. i \<noteq> memberId) (memberIds chat)\<rparr>) \<and>
            chatId' \<notin> userChats
              (exec st (snd (POST_remove_member st (Some requesterId) chatId' memberId))) memberId)"
  using assms remove_leaves_someone [of requesterId "memberIds chat" memberId]
  by (auto simp: POST_remove_member_def Let_def exec_triggers)

theorem remove_member_guarded_witness:
  "chats demo ''a--b'' = Some dm_ab \<and> isIndividualChat dm_ab \<and>
   statusOf (fst (POST_remove_member demo (Some ''a'') ''a--b'' ''b'')) = 400 \<and>
   snd (POST_remove_member demo (Some ''a'') ''a--b'' ''b'') = [] \<and>
   chats demo ''g1'' = Some study \<and>
   statusOf (fst (POST_remove_member demo (Some ''a'') ''g1'' ''c'')) = 200 \<and>
   chats (exec demo (snd (POST_remove_member demo (Some ''a'') ''g1'' ''c''))) ''g1''
     = Some (study\<lparr>memberIds := [''a'', ''b'']\<rparr>)"
proof -
  have dm: "chats demo ''a--b'' = Some dm_ab" and g: "chats demo ''g1'' = Some study"
    by (simp_all add: demo_def)
  have ind: "isIndividualChat dm_ab"
    by (simp add: isIndividualChat_def dm_ab_def)
  have ok: "statusOf (fst (POST_remove_member demo (Some ''a'') ''g1'' ''c'')) = 200"
    by (simp add: POST_remove_member_def demo_def study_def isIndividualChat_def Let_def)
  from remove_member_guarded [OF dm, of "''b''" "''a''"] ind
  have "snd (POST_remove_member demo (Some ''a'') ''a--b'' ''b'') = []" by blast
  moreover have "statusOf (fst (POST_remove_member demo (Some ''a'') ''a--b'' ''b'')) = 400"
    by (simp add: POST_remove_member_def demo_def dm_ab_def isIndividualChat_def)
  moreover from remove_member_guarded [OF g, of "''c''" "''a''"] ok
  have "chats (exec demo (snd (POST_remove_member demo (Some ''a'') ''g1'' ''c''))) (chat_id study)
     = Some (study\<lparr>memberIds := filter (\<lambda>i. i \<noteq> ''c'') (memberIds study)\<rparr>)" by blast
  then have "chats (exec demo (snd (POST_remove_member demo (Some ''a'') ''g1'' ''c''))) ''g1''
     = Some (study\<lparr>memberIds := [''a'', ''b'']\<rparr>)"
    by (simp add: study_def)
  ultimately show ?thesis using dm g ind ok by simp
qed

section \<open>C6: the first message to an unknown chat id\<close>

lemma bootstrap_accept:
  assumes "split chatId' = [userId1, userId2]"
    and "senderId' = userId1 \<or> senderId' = userId2"
    and "(if senderId' = userId1 then userId2 else userId1) \<in> friends st senderId'"
  shows "bootstrap st senderId' chatId' =
     Inr (\<lparr>chat_id = chatId', name = SENTINEL, memberIds = [userId1, userId2], createdAt = None\<rparr>,
          [DbSet \<lparr>chat_id = chatId', name = SENTINEL, memberIds = [userId1, userId2], createdAt = None\<rparr>,
           DbSAdd userId1 chatId', DbSAdd userId2 chatId'])"
  using assms by (auto simp: bootstrap_def Let_def)

lemma bootstrap_refuse:
  assumes "split chatId' = [userId1, userId2]"
    and "(senderId' \<noteq> userId1 \<and> senderId' \<noteq> userId2) \<or>
         (if senderId' = userId1 then userId2 else userId1) \<notin> friends st senderId'"
  shows "bootstrap st senderId' chatId' = Inl (Response (Text ''Unauthorized'') 401)"
  using assms by (auto simp: bootstrap_def Let_def)

text \<open>
  Claim C6. A send to a chat id without stored chat, whose split at the separator gives
  the two ids \<open>userId1\<close> and \<open>userId2\<close>, is refused with 401 and without effects when the
  sender is neither of the two or the other one is not in the sender's friend list.
  Otherwise the effects begin with the write of a chat of that id, named by the sentinel,
  with exactly the two ids as members, and its registration in both chat indexes;
  everything after that is a publication or the write of the message. The store
  afterwards holds the chat and both registrations.
\<close>

theorem implicit_dm_bootstrap:
  assumes "chats st chatId' = None" and "split chatId' = [userId1, userId2]"
  shows
   "((senderId' \<noteq> userId1 \<and> senderId' \<noteq> userId2) \<or>
     (if senderId' = userId1 then userId2 else userId1) \<notin> friends st senderId' \<longrightarrow>
       statusOf (fst (POST_send st (Some senderId') text' chatId' newId now)) = 401 \<and>
       snd (POST_send st (Some senderId') text' chatId' newId now) = []) \<and>
    ((senderId' = userId1 \<or> senderId' = userId2) \<and>
     (if senderId' = userId1 then userId2 else userId1) \<in> friends st senderId' \<longrightarrow>
       (\<exists>rest. snd (POST_send st (Some senderId') text' chatId' newId now) =
            [DbSet \<lparr>chat_id = chatId', name = SENTINEL, memberIds = [userId1, userId2],
                     createdAt = None\<rparr>,
             DbSAdd userId1 chatId', DbSAdd userId2 chatId'] @ rest \<and>
          list_all isMessageStep rest) \<and>
       chats (exec st (snd (POST_send st (Some senderId') text' chatId' newId now))) chatId' =
         Some \<lparr>chat_id = chatId', name = SENTINEL, memberIds = [userId1, userId2],
               createdAt = None\<rparr> \<and>
       chatId' \<in> userChats (exec st (snd (POST_send st (Some senderId') text' chatId' newId now))) userId1 \<and>
       chatId' \<in> userChats (exec st (snd (POST_send st (Some senderId') text' chatId' newId now))) userId2)"
proof -
  let ?chat = "\<lparr>chat_id = chatId', name = SENTINEL, memberIds = [userId1, userId2], createdAt = None\<rparr>"
  let ?r = "POST_send st (Some senderId') text' chatId' newId now"
  have refuse: "statusOf (fst ?r) = 401 \<and> snd ?r = []"
    if "(senderId' \<noteq> userId1 \<and> senderId' \<noteq> userId2) \<or>
        (if senderId' = userId1 then userId2 else userId1) \<notin> friends st senderId'"
    using bootstrap_refuse [OF assms(2) that] assms(1) by (simp add: POST_send_def)
  have accept: "(\<exists>rest. snd ?r = [DbSet ?chat, DbSAdd userId1 chatId', DbSAdd userId2 chatId'] @ rest \<and>
          list_all isMessageStep rest) \<and>
       chats (exec st (snd ?r)) chatId' = Some ?chat \<and>
       chatId' \<in> userChats (exec st (snd ?r)) userId1 \<and>
       chatId' \<in> userChats (exec st (snd ?r)) userId2"
    if a: "senderId' = userId1 \<or> senderId' = userId2"
      and f: "(if senderId' = userId1 then userId2 else userId1) \<in> friends st senderId'"
  proof -
    have b: "bootstrap st senderId' chatId' =
        Inr (?chat, [DbSet ?chat, DbSAdd userId1 chatId', DbSAdd userId2 chatId'])"
      by (rule bootstrap_accept [OF assms(2) a f])
    with assms(1) show ?thesis
      by (auto simp: POST_send_def Let_def exec_append exec_triggers list_all_iff
          split: option.splits)
  qed
  from refuse accept show ?thesis by blast
qed

theorem implicit_dm_bootstrap_witness:
  "chats demo ''b--a'' = None \<and> split ''b--a'' = [''b'', ''a''] \<and>
   ''b'' \<in> friends demo ''a'' \<and>
   chats (exec demo (snd (POST_send demo (Some ''a'') ''yo'' ''b--a'' ''m9'' 5000))) ''b--a'' =
     Some \<lparr>chat_id = ''b--a'', name = SENTINEL, memberIds = [''b'', ''a''], createdAt = None\<rparr> \<and>
   ''b--a'' \<in> userChats (exec demo (snd (POST_send demo (Some ''a'') ''yo'' ''b--a'' ''m9'' 5000))) ''b'' \<and>
   chats demo ''c--a'' = None \<and> split ''c--a'' = [''c'', ''a''] \<and>
   ''c'' \<notin> friends demo ''a'' \<and>
   snd (POST_send demo (Some ''a'') ''yo'' ''c--a'' ''m9'' 5000) = []"
proof -
  have n: "chats demo ''b--a'' = None" and s: "split ''b--a'' = [''b'', ''a'']"
    and n': "chats demo ''c--a'' = None" and s': "split ''c--a'' = [''c'', ''a'']"
    by (simp_all add: demo_def split_def)
  have f: "''b'' \<in> friends demo ''a''" and f': "''c'' \<notin> friends demo ''a''"
    by (simp_all add: demo_def)
  from implicit_dm_bootstrap [OF n s, of "''a''" "''yo''" "''m9''" 5000] f
  have "chats (exec demo (snd (POST_send demo (Some ''a'') ''yo'' ''b--a'' ''m9'' 5000))) ''b--a'' =
     Some \<lparr>chat_id = ''b--a'', name = SENTINEL, memberIds = [''b'', ''a''], createdAt = None\<rparr> \<and>
   ''b--a'' \<in> userChats (exec demo (snd (POST_send demo (Some ''a'') ''yo'' ''b--a'' ''m9'' 5000))) ''b''"
    by simp
  moreover from implicit_dm_bootstrap [OF n' s', of "''a''" "''yo''" "''m9''" 5000] f'
  have "snd (POST_send demo (Some ''a'') ''yo'' ''c--a'' ''m9'' 5000) = []"
    by simp
  ultimately show ?thesis using n s n' s' f f' by simp
qed

section \<open>C3: order of publication and write in the send route\<close>

lemma bootstrap_no_save:
  "bootstrap st senderId' chatId' = Inr (chat, created) \<Longrightarrow> list_all (\<lambda>e. \<not> isSave e) created"
  by (auto simp: bootstrap_def Let_def split: list.splits if_splits)

lemma bootstrap_refusal_status:
  "bootstrap st senderId' chatId' = Inl refusal \<Longrightarrow> statusOf refusal = 401"
  by (auto simp: bootstrap_def Let_def split: list.splits if_splits)

text \<open>
  Claim C3 asks that nothing is published before the message is in the log. The send
  route of src/unnamed/part_001 does the opposite: in every send answered with 200 the
  write of the message to the log is the last effect, nothing before it writes to a log,
  and the publication of \<open>incoming-message\<close> on the chat's channel is among the effects
  before it.
\<close>

theorem send_publishes_before_saving:
  "statusOf (fst (POST_send st (Some senderId') text' chatId' newId now)) = 200 \<longrightarrow>
     (\<exists>(chat :: Chat) before.
        snd (POST_send st (Some senderId') text' chatId' newId now) =
          before @ [DbZAdd (chat_id chat) now
                      \<lparr>msg_id = newId, chatId = chat_id chat, senderId = senderId',
                        msg_text = text', timestamp = now\<rparr>] \<and>
        Trigger (ChatChannel (chat_id chat)) ''incoming-message''
          (MessagePayload \<lparr>msg_id = newId, chatId = chat_id chat, senderId = senderId',
                            msg_text = text', timestamp = now\<rparr>) \<in> set before \<and>
        list_all (\<lambda>e. \<not> isSave e) before)"
proof
  let ?r = "POST_send st (Some senderId') text' chatId' newId now"
  let ?resolve = "case chats st chatId' of None \<Rightarrow> bootstrap st senderId' chatId'
      | Some chat \<Rightarrow> if senderId' \<notin> set (memberIds chat)
          then Inl (Response (Text ''Unauthorized'') 401) else Inr (chat, [])"
  assume ok: "statusOf (fst ?r) = 200"
  have "\<exists>chat created. ?resolve = Inr (chat, created)"
  proof (cases ?resolve)
    case (Inl refusal)
    then have "statusOf refusal = 401"
      by (auto dest: bootstrap_refusal_status split: option.splits if_splits)
    with Inl ok show ?thesis by (simp add: POST_send_def)
  next
    case (Inr b)
    then show ?thesis by (cases b) simp
  qed
  then obtain chat created where res: "?resolve = Inr (chat, created)" by blast
  then have quiet: "list_all (\<lambda>e. \<not> isSave e) created"
    by (auto dest: bootstrap_no_save split: option.splits if_splits)
  let ?m = "\<lparr>msg_id = newId, chatId = chat_id chat, senderId = senderId',
              msg_text = text', timestamp = now\<rparr>"
  let ?incoming = "Trigger (ChatChannel (chat_id chat)) ''incoming-message'' (MessagePayload ?m)"
  let ?others = "filter (\<lambda>i. i \<noteq> senderId') (memberIds chat)"
  show "\<exists>(chat :: Chat) before. snd ?r = before @ [DbZAdd (chat_id chat) now
            \<lparr>msg_id = newId, chatId = chat_id chat, senderId = senderId',
              msg_text = text', timestamp = now\<rparr>] \<and>
        Trigger (ChatChannel (chat_id chat)) ''incoming-message''
          (MessagePayload \<lparr>msg_id = newId, chatId = chat_id chat, senderId = senderId',
                            msg_text = text', timestamp = now\<rparr>) \<in> set before \<and>
        list_all (\<lambda>e. \<not> isSave e) before"
  proof (cases "users st senderId'")
    case None
    with ok res have "snd ?r = (created @ [?incoming]) @ [DbZAdd (chat_id chat) now ?m]"
      by (simp add: POST_send_def Let_def split: if_splits)
    moreover have "?incoming \<in> set (created @ [?incoming])" by simp
    moreover have "list_all (\<lambda>e. \<not> isSave e) (created @ [?incoming])"
      using quiet by simp
    ultimately have "snd ?r = (created @ [?incoming]) @ [DbZAdd (chat_id chat) now ?m] \<and>
        ?incoming \<in> set (created @ [?incoming]) \<and>
        list_all (\<lambda>e. \<not> isSave e) (created @ [?incoming])"
      by (intro conjI)
    then show ?thesis by - (rule exI, rule exI, assumption)
  next
    case (Some sender)
    let ?notes = "map (\<lambda>memberId. Trigger (UserChatsChannel memberId) ''new_message''
           (NotificationPayload ?m (user_image sender) (user_name sender))) ?others"
    from Some res have "snd ?r = (created @ [?incoming] @ ?notes) @ [DbZAdd (chat_id chat) now ?m]"
      by (simp add: POST_send_def Let_def)
    moreover have "?incoming \<in> set (created @ [?incoming] @ ?notes)" by simp
    moreover have "list_all (\<lambda>e. \<not> isSave e) (created @ [?incoming] @ ?notes)"
      using quiet by (auto simp: list_all_iff)
    ultimately have "snd ?r = (created @ [?incoming] @ ?notes) @ [DbZAdd (chat_id chat) now ?m] \<and>
        ?incoming \<in> set (created @ [?incoming] @ ?notes) \<and>
        list_all (\<lambda>e. \<not> isSave e) (created @ [?incoming] @ ?notes)"
      by (intro conjI)
    then show ?thesis by - (rule exI, rule exI, assumption)
  qed
qed

theorem send_publishes_before_saving_witness:
  "POST_send demo (Some ''a'') ''yo'' ''a--b'' ''m9'' 5000 =
     (Response (Text ''OK'') 200,
      [Trigger (ChatChannel ''a--b'') ''incoming-message''
         (MessagePayload \<lparr>msg_id = ''m9'', chatId = ''a--b'', senderId = ''a'', msg_text = ''yo'',
                           timestamp = 5000\<rparr>),
       Trigger (UserChatsChannel ''b'') ''new_message''
         (NotificationPayload \<lparr>msg_id = ''m9'', chatId = ''a--b'', senderId = ''a'', msg_text = ''yo'',
                                timestamp = 5000\<rparr> ''a.png'' ''Alice''),
       DbZAdd ''a--b'' 5000
         \<lparr>msg_id = ''m9'', chatId = ''a--b'', senderId = ''a'', msg_text = ''yo'', timestamp = 5000\<rparr>]) \<and>
   (\<exists>(chat :: Chat) before.
      snd (POST_send demo (Some ''a'') ''yo'' ''a--b'' ''m9'' 5000) =
        before @ [DbZAdd (chat_id chat) 5000
                    \<lparr>msg_id = ''m9'', chatId = chat_id chat, senderId = ''a'',
                      msg_text = ''yo'', timestamp = 5000\<rparr>] \<and>
      Trigger (ChatChannel (chat_id chat)) ''incoming-message''
        (MessagePayload \<lparr>msg_id = ''m9'', chatId = chat_id chat, senderId = ''a'',
                          msg_text = ''yo'', timestamp = 5000\<rparr>) \<in> set before \<and>
      list_all (\<lambda>e. \<not> isSave e) before)"
proof -
  have run: "POST_send demo (Some ''a'') ''yo'' ''a--b'' ''m9'' 5000 =
     (Response (Text ''OK'') 200,
      [Trigger (ChatChannel ''a--b'') ''incoming-message''
         (MessagePayload \<lparr>msg_id = ''m9'', chatId = ''a--b'', senderId = ''a'', msg_text = ''yo'',
                           timestamp = 5000\<rparr>),
       Trigger (UserChatsChannel ''b'') ''new_message''
         (NotificationPayload \<lparr>msg_id = ''m9'', chatId = ''a--b'', senderId = ''a'', msg_text = ''yo'',
                                timestamp = 5000\<rparr> ''a.png'' ''Alice''),
       DbZAdd ''a--b'' 5000
         \<lparr>msg_id = ''m9'', chatId = ''a--b'', senderId = ''a'', msg_text = ''yo'', timestamp = 5000\<rparr>])"
    by (simp add: POST_send_def demo_def dm_ab_def alice_def Let_def)
  then have "statusOf (fst (POST_send demo (Some ''a'') ''yo'' ''a--b'' ''m9'' 5000)) = 200"
    by simp
  with send_publishes_before_saving [of demo "''a''" "''yo''" "''a--b''" "''m9''" 5000] run
  show ?thesis by blast
qed

section \<open>C10: the chat page bootstraps a chat\<close>

text \<open>
  Claim C10. A signed-in user opens the page of a chat id without stored chat, whose
  split at the separator gives two ids, one of them the user's. The page then writes a
  chat of that id, named by the sentinel, with the two ids as members, and registers it
  in both chat indexes. The friend lists play no part: the page does the same whatever
  they hold. The writes are issued whether the page then renders or throws on a missing
  user record.
\<close>

theorem page_bootstraps_without_friendship:
  assumes "chats st chatId' = None" and "split chatId' = [userId1, userId2]"
    and "user = userId1 \<or> user = userId2"
  shows "snd (page st (Some user) chatId') =
      [DbSet \<lparr>chat_id = chatId', name = SENTINEL, memberIds = [userId1, userId2], createdAt = None\<rparr>,
       DbSAdd userId1 chatId', DbSAdd userId2 chatId'] \<and>
    fst (page st (Some user) chatId') =
      (case findPartner user [users st userId1, users st userId2] of
         None \<Rightarrow> Threw
       | Some partner \<Rightarrow>
           Rendered \<lparr>chat_id = chatId', name = SENTINEL, memberIds = [userId1, userId2],
                      createdAt = None\<rparr> False True) \<and>
    chats (exec st (snd (page st (Some user) chatId'))) chatId' =
      Some \<lparr>chat_id = chatId', name = SENTINEL, memberIds = [userId1, userId2], createdAt = None\<rparr> \<and>
    chatId' \<in> userChats (exec st (snd (page st (Some user) chatId'))) userId1 \<and>
    chatId' \<in> userChats (exec st (snd (page st (Some user) chatId'))) userId2 \<and>
    page (st\<lparr>friends := anyFriends\<rparr>) (Some user) chatId' = page st (Some user) chatId'"
  using assms
  by (auto simp: page_def renderChat_def Let_def isGroupChat_def isTwoPersonChat_def
      split: option.splits)

theorem page_bootstraps_without_friendship_witness:
  "chats demo ''a--c'' = None \<and> split ''a--c'' = [''a'', ''c''] \<and>
   ''c'' \<notin> friends demo ''a'' \<and> ''a'' \<notin> friends demo ''c'' \<and>
   page demo (Some ''a'') ''a--c'' =
     (Rendered \<lparr>chat_id = ''a--c'', name = SENTINEL, memberIds = [''a'', ''c''], createdAt = None\<rparr>
        False True,
      [DbSet \<lparr>chat_id = ''a--c'', name = SENTINEL, memberIds = [''a'', ''c''], createdAt = None\<rparr>,
       DbSAdd ''a'' ''a--c'', DbSAdd ''c'' ''a--c'']) \<and>
   chats (exec demo (snd (page demo (Some ''a'') ''a--c''))) ''a--c'' =
     Some \<lparr>chat_id = ''a--c'', name = SENTINEL, memberIds = [''a'', ''c''], createdAt = None\<rparr> \<and>
   ''a--c'' \<in> userChats (exec demo (snd (page demo (Some ''a'') ''a--c''))) ''a'' \<and>
   ''a--c'' \<in> userChats (exec demo (snd (page demo (Some ''a'') ''a--c''))) ''c'' \<and>
   chats demo ''a--zz'' = None \<and> split ''a--zz'' = [''a'', ''zz''] \<and> users demo ''zz'' = None \<and>
   page demo (Some ''a'') ''a--zz'' =
     (Threw,
      [DbSet \<lparr>chat_id = ''a--zz'', name = SENTINEL, memberIds = [''a'', ''zz''], createdAt = None\<rparr>,
       DbSAdd ''a'' ''a--zz'', DbSAdd ''zz'' ''a--zz''])"
proof -
  have n: "chats demo ''a--c'' = None" and s: "split ''a--c'' = [''a'', ''c'']"
    and n': "chats demo ''a--zz'' = None" and s': "split ''a--zz'' = [''a'', ''zz'']"
    by (simp_all add: demo_def split_def)
  have u: "''a'' = ''a'' \<or> ''a'' = ''c''" and u': "''a'' = ''a'' \<or> ''a'' = ''zz''" by simp_all
  have f: "''c'' \<notin> friends demo ''a''" "''a'' \<notin> friends demo ''c''"
    by (simp_all add: demo_def)
  have r: "users demo ''a'' = Some alice" "users demo ''c'' = Some carol" "users demo ''zz'' = None"
    by (simp_all add: demo_def)
  have p: "findPartner ''a'' [Some alice, Some carol] = Some (Some carol)"
    "findPartner ''a'' [Some alice, None] = None"
    by (simp_all add: alice_def carol_def)
  from page_bootstraps_without_friendship [OF n s u] r p
  have 1: "page demo (Some ''a'') ''a--c'' =
     (Rendered \<lparr>chat_id = ''a--c'', name = SENTINEL, memberIds = [''a'', ''c''], createdAt = None\<rparr>
        False True,
      [DbSet \<lparr>chat_id = ''a--c'', name = SENTINEL, memberIds = [''a'', ''c''], createdAt = None\<rparr>,
       DbSAdd ''a'' ''a--c'', DbSAdd ''c'' ''a--c''])"
    by (simp add: prod_eq_iff)
  from page_bootstraps_without_friendship [OF n' s' u'] r p
  have 2: "page demo (Some ''a'') ''a--zz'' =
     (Threw,
      [DbSet \<lparr>chat_id = ''a--zz'', name = SENTINEL, memberIds = [''a'', ''zz''], createdAt = None\<rparr>,
       DbSAdd ''a'' ''a--zz'', DbSAdd ''zz'' ''a--zz''])"
    by (simp add: prod_eq_iff)
  from page_bootstraps_without_friendship [OF n s u] n s n' s' f r 1 2 show ?thesis by simp
qed

section \<open>C5: creating a chat\<close>

lemma find_other_of_two:
  assumes "length ms = 2" and "r \<in> set ms" and "o' \<in> set ms" and "o' \<noteq> r"
  shows "find (\<lambda>i. i \<noteq> r) ms = Some o'"
proof -
  from assms(1) obtain x y where ms: "ms = [x, y]"
    by (cases ms; cases "tl ms") auto
  with assms(2-4) show ?thesis by auto
qed

text \<open>
  What the route checks. A request is refused, without effects, when the requester is
  not among the member ids, and when there are more than two member ids and the trimmed
  name is empty. With exactly two member ids and no name, a request that is accepted
  creates the chat under the sentinel name, so that it is classified as a direct message.
  With exactly two member ids, one of them an id other than the requester's that is not
  the empty string, the request is refused unless that id is in the requester's friend
  list.
\<close>

lemma create_group_rules:
  "(requesterId \<notin> set memberIds' \<longrightarrow>
      400 \<le> statusOf (fst (POST_create st (Some requesterId) reqName memberIds' newId now)) \<and>
      snd (POST_create st (Some requesterId) reqName memberIds' newId now) = []) \<and>
   (length memberIds' > 2 \<and> (case reqName of None \<Rightarrow> [] | Some n \<Rightarrow> trim n) = [] \<longrightarrow>
      400 \<le> statusOf (fst (POST_create st (Some requesterId) reqName memberIds' newId now)) \<and>
      snd (POST_create st (Some requesterId) reqName memberIds' newId now) = []) \<and>
   (length memberIds' = 2 \<and> reqName = None \<and>
    statusOf (fst (POST_create st (Some requesterId) reqName memberIds' newId now)) = 201 \<longrightarrow>
      fst (POST_create st (Some requesterId) reqName memberIds' newId now) =
        Response (ChatBody \<lparr>chat_id = newId, name = SENTINEL, memberIds = memberIds',
                             createdAt = Some now\<rparr>) 201 \<and>
      chats (exec st (snd (POST_create st (Some requesterId) reqName memberIds' newId now))) newId =
        Some \<lparr>chat_id = newId, name = SENTINEL, memberIds = memberIds', createdAt = Some now\<rparr> \<and>
      isIndividualChat \<lparr>chat_id = newId, name = SENTINEL, memberIds = memberIds',
                         createdAt = Some now\<rparr>) \<and>
   (length memberIds' = 2 \<and> otherId \<in> set memberIds' \<and> otherId \<noteq> requesterId \<and>
    otherId \<noteq> [] \<and> otherId \<notin> friends st requesterId \<longrightarrow>
      400 \<le> statusOf (fst (POST_create st (Some requesterId) reqName memberIds' newId now)) \<and>
      snd (POST_create st (Some requesterId) reqName memberIds' newId now) = [])"
proof (intro conjI impI)
  let ?r = "POST_create st (Some requesterId) reqName memberIds' newId now"
  show "400 \<le> statusOf (fst ?r)" "snd ?r = []" if "requesterId \<notin> set memberIds'"
    using that by (simp_all add: POST_create_def)
  show "400 \<le> statusOf (fst ?r)" "snd ?r = []"
    if "length memberIds' > 2 \<and> (case reqName of None \<Rightarrow> [] | Some n \<Rightarrow> trim n) = []"
    using that by (simp_all add: POST_create_def Let_def)
  show "400 \<le> statusOf (fst ?r)" "snd ?r = []"
    if h: "length memberIds' = 2 \<and> otherId \<in> set memberIds' \<and> otherId \<noteq> requesterId \<and>
        otherId \<noteq> [] \<and> otherId \<notin> friends st requesterId"
  proof -
    have "requesterId \<in> set memberIds' \<Longrightarrow> find (\<lambda>i. i \<noteq> requesterId) memberIds' = Some otherId"
      using h find_other_of_two [of memberIds' requesterId otherId] by simp
    with h show "400 \<le> statusOf (fst ?r)" "snd ?r = []"
      by (auto simp: POST_create_def Let_def)
  qed
  assume h: "length memberIds' = 2 \<and> reqName = None \<and> statusOf (fst ?r) = 201"
  then have run: "?r =
     (Response (ChatBody \<lparr>chat_id = newId, name = SENTINEL, memberIds = memberIds',
                           createdAt = Some now\<rparr>) 201,
      [DbSet \<lparr>chat_id = newId, name = SENTINEL, memberIds = memberIds', createdAt = Some now\<rparr>] @
      map (\<lambda>memberId. DbSAdd memberId newId) memberIds' @
      map (\<lambda>memberId. Trigger (UserChatsChannel memberId) ''added_to_chat''
             (ChatUpdatePayload newId \<lparr>chat_id = newId, name = SENTINEL, memberIds = memberIds',
                                          createdAt = Some now\<rparr>))
        (filter (\<lambda>i. i \<noteq> requesterId) memberIds') @
      map (\<lambda>memberId. Trigger (UserChatsChannel memberId) ''chat_created''
             (ChatPayload \<lparr>chat_id = newId, name = SENTINEL, memberIds = memberIds',
                            createdAt = Some now\<rparr>))
        (filter (\<lambda>i. i \<noteq> requesterId) memberIds') @
      [Trigger (UserChatsChannel requesterId) ''chat_created''
         (ChatPayload \<lparr>chat_id = newId, name = SENTINEL, memberIds = memberIds',
                        createdAt = Some now\<rparr>)])"
    by (simp add: POST_create_def Let_def split: if_splits)
  then show "fst ?r = Response (ChatBody \<lparr>chat_id = newId, name = SENTINEL, memberIds = memberIds',
                             createdAt = Some now\<rparr>) 201"
    by simp
  from h show "isIndividualChat \<lparr>chat_id = newId, name = SENTINEL, memberIds = memberIds',
                         createdAt = Some now\<rparr>"
    by (simp add: isIndividualChat_def)
  have sadd: "chats (exec s (map (\<lambda>memberId. DbSAdd memberId newId) ms)) = chats s" for s ms
    by (induction ms arbitrary: s) simp_all
  show "chats (exec st (snd ?r)) newId =
        Some \<lparr>chat_id = newId, name = SENTINEL, memberIds = memberIds', createdAt = Some now\<rparr>"
    unfolding run by (simp add: exec_append exec_triggers sadd)
qed

lemma create_group_rules_example:
  "length [''a'', ''b''] = 2 \<and>
   statusOf (fst (POST_create demo (Some ''a'') None [''a'', ''b''] ''n1'' 7000)) = 201 \<and>
   chats (exec demo (snd (POST_create demo (Some ''a'') None [''a'', ''b''] ''n1'' 7000))) ''n1'' =
     Some \<lparr>chat_id = ''n1'', name = SENTINEL, memberIds = [''a'', ''b''], createdAt = Some 7000\<rparr> \<and>
   ''c'' \<in> set [''a'', ''c''] \<and> ''c'' \<notin> friends demo ''a'' \<and>
   snd (POST_create demo (Some ''a'') None [''a'', ''c''] ''n1'' 7000) = [] \<and>
   ''b'' \<notin> set [''a'', ''c''] \<and>
   snd (POST_create demo (Some ''b'') None [''a'', ''c''] ''n1'' 7000) = [] \<and>
   snd (POST_create demo (Some ''a'') (Some ''  '') [''a'', ''b'', ''c''] ''n1'' 7000) = []"
proof -
  have ok: "statusOf (fst (POST_create demo (Some ''a'') None [''a'', ''b''] ''n1'' 7000)) = 201"
    by (simp add: POST_create_def demo_def Let_def)
  have nf: "''c'' \<notin> friends demo ''a''" by (simp add: demo_def)
  have blank: "(case Some ''  '' of None \<Rightarrow> [] | Some n \<Rightarrow> trim n) = []"
    by (simp add: trim_def isWhiteSpace_def)
  from create_group_rules [of "''a''" "[''a'', ''b'']" demo None "''n1''" 7000] ok
  have "chats (exec demo (snd (POST_create demo (Some ''a'') None [''a'', ''b''] ''n1'' 7000))) ''n1'' =
     Some \<lparr>chat_id = ''n1'', name = SENTINEL, memberIds = [''a'', ''b''], createdAt = Some 7000\<rparr>"
    by simp
  moreover from create_group_rules [of "''a''" "[''a'', ''c'']" demo None "''n1''" 7000 "''c''"] nf
  have "snd (POST_create demo (Some ''a'') None [''a'', ''c''] ''n1'' 7000) = []"
    by simp
  moreover from create_group_rules [of "''b''" "[''a'', ''c'']" demo None "''n1''" 7000]
  have "snd (POST_create demo (Some ''b'') None [''a'', ''c''] ''n1'' 7000) = []"
    by simp
  moreover from create_group_rules [of "''a''" "[''a'', ''b'', ''c'']" demo "Some ''  ''" "''n1''" 7000] blank
  have "snd (POST_create demo (Some ''a'') (Some ''  '') [''a'', ''b'', ''c''] ''n1'' 7000) = []"
    by simp
  ultimately show ?thesis using ok nf by simp
qed

text \<open>
  Claim C5 asks, for a request with exactly two member ids, that the requester and the
  other member are friends. The route means to ask it (``ensure all members are friends
  with requester for 1-to-1 chats'') but tests \<open>if (otherId)\<close> before it looks at the friend
  list, and the empty string is falsy: Alice creates a two-member chat with the member id
  \<open>""\<close>, which is not in her friend list, and is answered with 201. The bootstrap of the
  send route refuses the same pair of ids, reached through the chat id \<open>a--\<close>.
\<close>

theorem create_skips_friend_check_for_empty_id:
  "length [''a'', []] = 2 \<and> [] \<in> set [''a'', []] \<and> [] \<noteq> ''a'' \<and>
   [] \<notin> friends demo ''a'' \<and>
   POST_create demo (Some ''a'') None [''a'', []] ''n1'' 7000 =
     (Response (ChatBody \<lparr>chat_id = ''n1'', name = SENTINEL, memberIds = [''a'', []],
                           createdAt = Some 7000\<rparr>) 201,
      [DbSet \<lparr>chat_id = ''n1'', name = SENTINEL, memberIds = [''a'', []], createdAt = Some 7000\<rparr>,
       DbSAdd ''a'' ''n1'', DbSAdd [] ''n1'',
       Trigger (UserChatsChannel []) ''added_to_chat''
         (ChatUpdatePayload ''n1''
            \<lparr>chat_id = ''n1'', name = SENTINEL, memberIds = [''a'', []], createdAt = Some 7000\<rparr>),
       Trigger (UserChatsChannel []) ''chat_created''
         (ChatPayload
            \<lparr>chat_id = ''n1'', name = SENTINEL, memberIds = [''a'', []], createdAt = Some 7000\<rparr>),
       Trigger (UserChatsChannel ''a'') ''chat_created''
         (ChatPayload
            \<lparr>chat_id = ''n1'', name = SENTINEL, memberIds = [''a'', []], createdAt = Some 7000\<rparr>)]) \<and>
   chats demo ''a--'' = None \<and> split ''a--'' = [''a'', []] \<and>
   POST_send demo (Some ''a'') ''yo'' ''a--'' ''m9'' 5000 = (Response (Text ''Unauthorized'') 401, [])"
proof -
  have "POST_send demo (Some ''a'') ''yo'' ''a--'' ''m9'' 5000 = (Response (Text ''Unauthorized'') 401, [])"
    by (simp add: POST_send_def bootstrap_def split_def demo_def Let_def)
  then show ?thesis
    by (simp add: POST_create_def demo_def split_def Let_def)
qed

section \<open>C7: editing a message\<close>

lemma set_zrem: "set (zrem log member) = {e \<in> set log. snd e \<noteq> member}"
  by (auto simp: zrem_def)

lemma set_zinsert: "set (zinsert score member log) = insert (score, member) (set log)"
  by (induction log) auto

lemma set_zadd: "set (zadd log score member) = insert (score, member) {e \<in> set log. snd e \<noteq> member}"
  by (simp add: zadd_def set_zinsert set_zrem)

lemma set_zadd_zrem:
  "set (zadd (zrem log a) score b) = insert (score, b) {e \<in> set log. snd e \<noteq> a \<and> snd e \<noteq> b}"
  by (auto simp: set_zadd set_zrem)

lemma findIndex_find: "findIndex P xs = Some i \<Longrightarrow> find P xs = Some (xs ! i)"
  by (induction xs arbitrary: i) (auto split: if_splits)

lemma find_findIndex: "find P xs = Some x \<Longrightarrow> \<exists>i. findIndex P xs = Some i \<and> xs ! i = x"
  by (induction xs) (auto split: if_splits)

lemma exec_publications:
  "list_all isMessageStep es \<Longrightarrow> list_all (\<lambda>e. \<not> isSave e) es \<Longrightarrow>
     messages (exec st es) = messages st"
proof (induction es arbitrary: st)
  case Nil
  then show ?case by simp
next
  case (Cons e es)
  then show ?case by (cases e) simp_all
qed

lemma POST_edit_foreign:
  assumes "findIndex (\<lambda>msg. msg_id msg = messageId) (map snd (messages st chatId')) = Some i"
    and "map snd (messages st chatId') ! i = original"
    and "senderId original \<noteq> senderId'"
  shows "400 \<le> statusOf (fst (POST_edit st (Some senderId') messageId chatId' text')) \<and>
         snd (POST_edit st (Some senderId') messageId chatId' text') = []"
proof (cases "chats st chatId'")
  case None
  then show ?thesis by (simp add: POST_edit_def Let_def)
next
  case (Some chat)
  with assms show ?thesis by (simp add: POST_edit_def Let_def)
qed

lemma POST_edit_accepted:
  assumes ok: "statusOf (fst (POST_edit st (Some senderId') messageId chatId' text')) = 200"
  shows "\<exists>i.
     findIndex (\<lambda>msg. msg_id msg = messageId) (map snd (messages st chatId')) = Some i \<and>
     senderId (map snd (messages st chatId') ! i) = senderId' \<and>
     (\<exists>rest. list_all isMessageStep rest \<and> list_all (\<lambda>e. \<not> isSave e) rest \<and>
        snd (POST_edit st (Some senderId') messageId chatId' text') =
          [DbZRem chatId' (map snd (messages st chatId') ! i),
           DbZAdd chatId' (timestamp (map snd (messages st chatId') ! i))
             ((map snd (messages st chatId') ! i)\<lparr>msg_text := trim text'\<rparr>)] @ rest)"
proof -
  let ?r = "POST_edit st (Some senderId') messageId chatId' text'"
  let ?log = "map snd (messages st chatId')"
  have given: "\<not> (messageId = [] \<or> chatId' = [] \<or> text' = [])"
  proof
    assume "messageId = [] \<or> chatId' = [] \<or> text' = []"
    then have "statusOf (fst ?r) = 400" by (simp add: POST_edit_def)
    with ok show False by simp
  qed
  have nonblank: "trim text' \<noteq> []"
  proof
    assume "trim text' = []"
    with given have "statusOf (fst ?r) = 400" by (simp add: POST_edit_def Let_def)
    with ok show False by simp
  qed
  obtain chat where chat: "chats st chatId' = Some chat"
  proof (cases "chats st chatId'")
    case None
    with given nonblank have "statusOf (fst ?r) = 404" by (simp add: POST_edit_def Let_def)
    with ok show ?thesis by simp
  next
    case (Some c)
    then show ?thesis by (rule that)
  qed
  have member: "senderId' \<in> set (memberIds chat)"
  proof (rule ccontr)
    assume "senderId' \<notin> set (memberIds chat)"
    with given nonblank chat have "statusOf (fst ?r) = 401" by (simp add: POST_edit_def Let_def)
    with ok show False by simp
  qed
  obtain i where i: "findIndex (\<lambda>msg. msg_id msg = messageId) ?log = Some i"
  proof (cases "findIndex (\<lambda>msg. msg_id msg = messageId) ?log")
    case None
    with given nonblank chat member have "statusOf (fst ?r) = 404"
      by (simp add: POST_edit_def Let_def)
    with ok show ?thesis by simp
  next
    case (Some k)
    then show ?thesis by (rule that)
  qed
  have own: "senderId (?log ! i) = senderId'"
  proof (rule ccontr)
    assume "senderId (?log ! i) \<noteq> senderId'"
    with given nonblank chat member i have "statusOf (fst ?r) = 403"
      by (simp add: POST_edit_def Let_def)
    with ok show False by simp
  qed
  let ?o = "?log ! i"
  let ?u = "?o\<lparr>msg_text := trim text'\<rparr>"
  let ?edited = "Trigger (ChatChannel chatId') ''message_edited'' (MessagePayload ?u)"
  have "\<exists>rest. list_all isMessageStep rest \<and> list_all (\<lambda>e. \<not> isSave e) rest \<and>
      snd ?r = [DbZRem chatId' ?o, DbZAdd chatId' (timestamp ?o) ?u] @ rest"
  proof (cases "users st senderId'")
    case None
    with given nonblank chat member i own
    have "snd ?r = [DbZRem chatId' ?o, DbZAdd chatId' (timestamp ?o) ?u] @ [?edited]"
      by (simp add: POST_edit_def Let_def)
    moreover have "list_all isMessageStep [?edited]" "list_all (\<lambda>e. \<not> isSave e) [?edited]"
      by simp_all
    ultimately show ?thesis by blast
  next
    case (Some sender)
    let ?rest = "?edited # map (\<lambda>memberId. Trigger (UserChatsChannel memberId) ''message_edited''
        (NotificationPayload ?u (user_image sender) (user_name sender)))
        (filter (\<lambda>i. i \<noteq> senderId') (memberIds chat))"
    from Some given nonblank chat member i own
    have "snd ?r = [DbZRem chatId' ?o, DbZAdd chatId' (timestamp ?o) ?u] @ ?rest"
      by (simp add: POST_edit_def Let_def)
    moreover have "list_all isMessageStep ?rest" "list_all (\<lambda>e. \<not> isSave e) ?rest"
      by (auto simp: list_all_iff)
    ultimately show ?thesis by blast
  qed
  with i own show ?thesis by blast
qed

text \<open>
  Claim C7. An edit answered with 200 was requested by the sender of the message, the
  first of the chat's log with the requested id. Afterwards the log holds, at the score
  of the original's timestamp, the original with only its text replaced by the trimmed
  new text (same id, chat, sender and timestamp); the original entry is gone, every other
  entry of the log is as before, and so is every other log. When the requester is not the
  sender of that message the request is refused, without effects, and the store stays as
  it was.
\<close>

theorem edit_changes_text_only:
  "(statusOf (fst (POST_edit st (Some senderId') messageId chatId' text')) = 200 \<longrightarrow>
      (\<exists>original :: Message.
         find (\<lambda>msg. msg_id msg = messageId) (map snd (messages st chatId')) = Some original \<and>
         senderId original = senderId' \<and>
         set (messages (exec st (snd (POST_edit st (Some senderId') messageId chatId' text'))) chatId') =
           insert (timestamp original, original\<lparr>msg_text := trim text'\<rparr>)
             {e \<in> set (messages st chatId').
                snd e \<noteq> original \<and> snd e \<noteq> original\<lparr>msg_text := trim text'\<rparr>} \<and>
         msg_id (original\<lparr>msg_text := trim text'\<rparr>) = msg_id original \<and>
         chatId (original\<lparr>msg_text := trim text'\<rparr>) = chatId original \<and>
         senderId (original\<lparr>msg_text := trim text'\<rparr>) = senderId original \<and>
         timestamp (original\<lparr>msg_text := trim text'\<rparr>) = timestamp original \<and>
         (\<forall>k. k \<noteq> chatId' \<longrightarrow>
            messages (exec st (snd (POST_edit st (Some senderId') messageId chatId' text'))) k =
            messages st k))) \<and>
   ((\<exists>original :: Message.
       find (\<lambda>msg. msg_id msg = messageId) (map snd (messages st chatId')) = Some original \<and>
       senderId original \<noteq> senderId') \<longrightarrow>
      400 \<le> statusOf (fst (POST_edit st (Some senderId') messageId chatId' text')) \<and>
      snd (POST_edit st (Some senderId') messageId chatId' text') = [] \<and>
      exec st (snd (POST_edit st (Some senderId') messageId chatId' text')) = st)"
proof (intro conjI impI)
  let ?r = "POST_edit st (Some senderId') messageId chatId' text'"
  let ?log = "map snd (messages st chatId')"
  let ?P = "\<lambda>msg :: Message. msg_id msg = messageId"
  {
    assume "\<exists>original :: Message. find ?P ?log = Some original \<and> senderId original \<noteq> senderId'"
    then obtain original where o: "find ?P ?log = Some original" "senderId original \<noteq> senderId'"
      by blast
    from find_findIndex [OF o(1)] obtain i where i: "findIndex ?P ?log = Some i" "?log ! i = original"
      by blast
    from i o(2) have "400 \<le> statusOf (fst ?r) \<and> snd ?r = []"
      by (rule POST_edit_foreign)
    then show "400 \<le> statusOf (fst ?r)" "snd ?r = []" "exec st (snd ?r) = st"
      by simp_all
  }
  assume ok: "statusOf (fst ?r) = 200"
  from POST_edit_accepted [OF ok] obtain i where
    i: "findIndex ?P ?log = Some i" and own: "senderId (?log ! i) = senderId'"
    and eff: "\<exists>rest. list_all isMessageStep rest \<and> list_all (\<lambda>e. \<not> isSave e) rest \<and>
        snd ?r = [DbZRem chatId' (?log ! i),
                  DbZAdd chatId' (timestamp (?log ! i)) ((?log ! i)\<lparr>msg_text := trim text'\<rparr>)] @ rest"
    by blast
  let ?o = "?log ! i"
  let ?u = "?o\<lparr>msg_text := trim text'\<rparr>"
  from eff obtain rest where rest: "list_all isMessageStep rest" "list_all (\<lambda>e. \<not> isSave e) rest"
    and snd_r: "snd ?r = [DbZRem chatId' ?o, DbZAdd chatId' (timestamp ?o) ?u] @ rest"
    by blast
  have msgs: "messages (exec st (snd ?r)) =
      (messages st)(chatId' := zadd (zrem (messages st chatId') ?o) (timestamp ?o) ?u)"
    unfolding snd_r using rest by (simp add: exec_append exec_publications)
  have "find ?P ?log = Some ?o" by (rule findIndex_find [OF i])
  moreover have "set (messages (exec st (snd ?r)) chatId') =
      insert (timestamp ?o, ?u) {e \<in> set (messages st chatId'). snd e \<noteq> ?o \<and> snd e \<noteq> ?u}"
    by (simp add: msgs set_zadd_zrem)
  moreover have "\<forall>k. k \<noteq> chatId' \<longrightarrow> messages (exec st (snd ?r)) k = messages st k"
    by (simp add: msgs)
  ultimately have "find ?P ?log = Some ?o \<and> senderId ?o = senderId' \<and>
      set (messages (exec st (snd ?r)) chatId') =
        insert (timestamp ?o, ?u) {e \<in> set (messages st chatId'). snd e \<noteq> ?o \<and> snd e \<noteq> ?u} \<and>
      msg_id ?u = msg_id ?o \<and> chatId ?u = chatId ?o \<and> senderId ?u = senderId ?o \<and>
      timestamp ?u = timestamp ?o \<and>
      (\<forall>k. k \<noteq> chatId' \<longrightarrow> messages (exec st (snd ?r)) k = messages st k)"
    using own by simp
  then show "\<exists>original :: Message.
         find ?P ?log = Some original \<and>
         senderId original = senderId' \<and>
         set (messages (exec st (snd ?r)) chatId') =
           insert (timestamp original, original\<lparr>msg_text := trim text'\<rparr>)
             {e \<in> set (messages st chatId').
                snd e \<noteq> original \<and> snd e \<noteq> original\<lparr>msg_text := trim text'\<rparr>} \<and>
         msg_id (original\<lparr>msg_text := trim text'\<rparr>) = msg_id original \<and>
         chatId (original\<lparr>msg_text := trim text'\<rparr>) = chatId original \<and>
         senderId (original\<lparr>msg_text := trim text'\<rparr>) = senderId original \<and>
         timestamp (original\<lparr>msg_text := trim text'\<rparr>) = timestamp original \<and>
         (\<forall>k. k \<noteq> chatId' \<longrightarrow> messages (exec st (snd ?r)) k = messages st k)"
    by - (rule exI, assumption)
qed

theorem edit_changes_text_only_witness:
  "statusOf (fst (POST_edit demo (Some ''a'') ''m1'' ''g1'' ''  hello there '')) = 200 \<and>
   set (messages (exec demo (snd (POST_edit demo (Some ''a'') ''m1'' ''g1'' ''  hello there ''))) ''g1'') =
     {(100, hello\<lparr>msg_text := ''hello there''\<rparr>)} \<and>
   find (\<lambda>msg. msg_id msg = ''m1'') (map snd (messages demo ''g1'')) = Some hello \<and>
   senderId hello \<noteq> ''b'' \<and>
   snd (POST_edit demo (Some ''b'') ''m1'' ''g1'' ''bye'') = []"
proof -
  let ?r = "POST_edit demo (Some ''a'') ''m1'' ''g1'' ''  hello there ''"
  have ok: "statusOf (fst ?r) = 200"
    by (simp add: POST_edit_def demo_def study_def hello_def trim_def isWhiteSpace_def Let_def)
  have found: "find (\<lambda>msg. msg_id msg = ''m1'') (map snd (messages demo ''g1'')) = Some hello"
    by (simp add: demo_def hello_def)
  have other: "senderId hello \<noteq> ''b''" by (simp add: hello_def)
  have t: "trim ''  hello there '' = ''hello there''"
    by (simp add: trim_def isWhiteSpace_def)
  from edit_changes_text_only [of demo "''a''" "''m1''" "''g1''" "''  hello there ''"] ok
  obtain original :: Message where
    o: "find (\<lambda>msg. msg_id msg = ''m1'') (map snd (messages demo ''g1'')) = Some original"
    and s: "set (messages (exec demo (snd ?r)) ''g1'') =
       insert (timestamp original, original\<lparr>msg_text := trim ''  hello there ''\<rparr>)
         {e \<in> set (messages demo ''g1'').
            snd e \<noteq> original \<and> snd e \<noteq> original\<lparr>msg_text := trim ''  hello there ''\<rparr>}"
    by blast
  from o found have "original = hello" by simp
  with s t have "set (messages (exec demo (snd ?r)) ''g1'') =
      insert (timestamp hello, hello\<lparr>msg_text := ''hello there''\<rparr>)
         {e \<in> set (messages demo ''g1'').
            snd e \<noteq> hello \<and> snd e \<noteq> hello\<lparr>msg_text := ''hello there''\<rparr>}"
    by simp
  also have "\<dots> = {(100, hello\<lparr>msg_text := ''hello there''\<rparr>)}"
    by (auto simp: demo_def hello_def)
  finally have edited: "set (messages (exec demo (snd ?r)) ''g1'') =
      {(100, hello\<lparr>msg_text := ''hello there''\<rparr>)}" .
  from edit_changes_text_only [of demo "''b''" "''m1''" "''g1''" "''bye''"] found other
  have "snd (POST_edit demo (Some ''b'') ''m1'' ''g1'' ''bye'') = []"
    by blast
  with ok edited found other show ?thesis by simp
qed

section \<open>C8: order of the two views\<close>

lemma mset_insertBy: "mset (insertBy cmp x xs) = add_mset x (mset xs)"
  by (induction xs) auto

lemma mset_sortBy: "mset (sortBy cmp xs) = mset xs"
  by (induction xs) (auto simp: sortBy_def mset_insertBy)

lemma set_insertBy: "set (insertBy cmp x xs) = insert x (set xs)"
  by (induction xs) auto

lemma descending_insertBy:
  "descendingBy key xs \<Longrightarrow> descendingBy key (insertBy (\<lambda>a b. key b - key a) x xs)"
  unfolding descendingBy_def
  by (induction xs) (auto simp: set_insertBy)

lemma descending_sortBy: "descendingBy key (sortBy (\<lambda>a b. key b - key a) xs)"
proof (induction xs)
  case Nil
  then show ?case by (simp add: sortBy_def descendingBy_def)
next
  case (Cons x xs)
  then show ?case using descending_insertBy [of key _ x] by (simp add: sortBy_def)
qed

lemma loadItem_hasMessages:
  "loadItem st u c = Some item \<Longrightarrow> hasMessages item = (latestMessageTimestamp item \<noteq> None)"
  by (auto simp: loadItem_def Let_def split: option.splits if_splits)

lemma loadItems_hasMessages:
  "loadItems st u cs = Some items \<Longrightarrow>
     \<forall>item \<in> set items. hasMessages item = (latestMessageTimestamp item \<noteq> None)"
proof (induction cs arbitrary: items)
  case Nil
  then show ?case by simp
next
  case (Cons c cs)
  from Cons.prems obtain item rest where
    item: "loadItem st u c = Some item" and rest: "loadItems st u cs = Some rest"
    and items: "items = item # rest"
    by (auto split: option.splits)
  from loadItem_hasMessages [OF item] Cons.IH [OF rest] items show ?case by simp
qed

lemma orZero_orNull: "orZero (orNull x) = orZero x"
  by (simp add: orZero_def orNull_def split: option.splits)

lemma loadItem_createdAt:
  "loadItem st u c = Some item \<Longrightarrow> item_createdAt item = orNull (createdAt (item_chat item))"
  by (auto simp: loadItem_def Let_def split: option.splits if_splits)

lemma loadItems_createdAt:
  "loadItems st u cs = Some items \<Longrightarrow>
     \<forall>item \<in> set items. item_createdAt item = orNull (createdAt (item_chat item))"
proof (induction cs arbitrary: items)
  case Nil
  then show ?case by simp
next
  case (Cons c cs)
  from Cons.prems obtain item rest where
    item: "loadItem st u c = Some item" and rest: "loadItems st u cs = Some rest"
    and items: "items = item # rest"
    by (auto split: option.splits)
  from loadItem_createdAt [OF item] Cons.IH [OF rest] items show ?case by simp
qed

lemma sorted_last_Max:
  fixes xs :: "int list"
  shows "sorted xs \<Longrightarrow> xs \<noteq> [] \<Longrightarrow> last xs = Max (set xs)"
proof (induction xs)
  case Nil
  then show ?case by simp
next
  case (Cons x xs)
  show ?case
  proof (cases "xs = []")
    case True
    then show ?thesis by simp
  next
    case False
    with Cons have "last xs = Max (set xs)" by simp
    moreover from Cons.prems False have "x \<le> Max (set xs)"
      by (simp add: Max_ge_iff) (meson last_in_set)
    ultimately show ?thesis using False by (simp add: max_def)
  qed
qed

lemma scored_last_mostRecent:
  assumes "scoredByTimestamp log" and "log \<noteq> []"
  shows "Some (timestamp (snd (last log))) = mostRecent log"
proof -
  from assms(1) have eq: "map (\<lambda>e. timestamp (snd e)) log = map fst log"
    by (simp add: scoredByTimestamp_def)
  from assms have "last (map fst log) = Max (set (map fst log))"
    by (intro sorted_last_Max) (simp_all add: scoredByTimestamp_def)
  moreover from assms(1,2) have "last (map fst log) = timestamp (snd (last log))"
    by (simp add: last_map scoredByTimestamp_def)
  ultimately show ?thesis using assms(2) by (simp add: mostRecent_def eq)
qed

lemma loadItem_latest:
  assumes "loadItem st u c = Some item"
  shows "chats st c = Some (item_chat item) \<and>
     latestMessageTimestamp item =
       (if messages st c = [] then None else Some (timestamp (snd (last (messages st c))))) \<and>
     (scoredByTimestamp (messages st c) \<longrightarrow> latestMessageTimestamp item = mostRecent (messages st c))"
proof -
  from assms have c: "chats st c = Some (item_chat item)"
    and l: "latestMessageTimestamp item =
       (if messages st c = [] then None else Some (timestamp (snd (last (messages st c)))))"
    by (auto simp: loadItem_def Let_def split: option.splits if_splits list.splits)
  have "latestMessageTimestamp item = mostRecent (messages st c)" if "scoredByTimestamp (messages st c)"
  proof (cases "messages st c = []")
    case True
    with l show ?thesis by (simp add: mostRecent_def)
  next
    case False
    with l scored_last_mostRecent [OF that False] show ?thesis by simp
  qed
  with c l show ?thesis by blast
qed

lemma loadItems_latest:
  "loadItems st u cs = Some items \<Longrightarrow>
     \<forall>item \<in> set items. \<exists>c \<in> set cs.
        chats st c = Some (item_chat item) \<and>
        latestMessageTimestamp item =
          (if messages st c = [] then None else Some (timestamp (snd (last (messages st c))))) \<and>
        (scoredByTimestamp (messages st c) \<longrightarrow>
           latestMessageTimestamp item = mostRecent (messages st c))"
proof (induction cs arbitrary: items)
  case Nil
  then show ?case by simp
next
  case (Cons c cs)
  from Cons.prems obtain item rest where
    item: "loadItem st u c = Some item" and rest: "loadItems st u cs = Some rest"
    and items: "items = item # rest"
    by (auto split: option.splits)
  from loadItem_latest [OF item] Cons.IH [OF rest] items show ?case by auto
qed

text \<open>
  The routes keep every log scored by timestamp: the send route writes a message at the
  score \<open>now\<close>, its timestamp, and the edit route writes the edited message at the
  original's timestamp, which it keeps.
\<close>

lemma sorted_zinsert:
  "sorted (map fst log) \<Longrightarrow> sorted (map fst (zinsert score member log))"
proof (induction log)
  case Nil
  then show ?case by simp
next
  case (Cons e log)
  have "set (zinsert score member log) = insert (score, member) (set log)"
    by (rule set_zinsert)
  with Cons show ?case by auto
qed

lemma scored_zrem: "scoredByTimestamp log \<Longrightarrow> scoredByTimestamp (zrem log member)"
  by (auto simp: scoredByTimestamp_def zrem_def filter_map [symmetric] comp_def
      intro: sorted_filter)

lemma scored_zadd:
  "scoredByTimestamp log \<Longrightarrow> scoredByTimestamp (zadd log (timestamp member) member)"
  using scored_zrem [of log member]
  by (auto simp: scoredByTimestamp_def zadd_def set_zinsert sorted_zinsert)

lemma scored_exec1:
  "\<forall>k. scoredByTimestamp (messages st k) \<Longrightarrow> savesAtTimestamp e \<Longrightarrow>
     \<forall>k. scoredByTimestamp (messages (exec1 st e) k)"
  by (cases e) (auto simp: scored_zadd scored_zrem)

lemma scored_exec:
  "\<forall>k. scoredByTimestamp (messages st k) \<Longrightarrow> list_all savesAtTimestamp es \<Longrightarrow>
     \<forall>k. scoredByTimestamp (messages (exec st es) k)"
proof (induction es arbitrary: st)
  case Nil
  then show ?case by simp
next
  case (Cons e es)
  from Cons.prems have "\<forall>k. scoredByTimestamp (messages (exec1 st e) k)"
    by (intro scored_exec1) simp_all
  with Cons show ?case by simp
qed

lemma POST_send_saves:
  "list_all savesAtTimestamp (snd (POST_send st session text' chatId' newId now))"
  by (auto simp: POST_send_def bootstrap_def Let_def list_all_iff
      split: option.splits sum.splits list.splits if_splits)

lemma POST_edit_saves:
  "list_all savesAtTimestamp (snd (POST_edit st session messageId chatId' text'))"
  by (auto simp: POST_edit_def Let_def list_all_iff split: option.splits if_splits)

text \<open>
  Claim C8. Whenever the layout loads the user's chats, the direct view is in descending
  order of the timestamp of each chat's latest message (every chat of that view has one),
  and the group view is in descending order of the larger of creation time and latest
  message timestamp, a missing one counting as 0. Each view holds exactly the loaded
  chats that its filter admits. The latest message timestamp of an entry is read from the
  log of one of the user's chat ids, the one its chat is stored under: it is the
  timestamp of the last entry of that log, none for an empty log, and so the greatest
  timestamp of the log when the log is scored by timestamp, as the routes keep it. The
  witness is the example of the specification: a group created at 50 with a message at
  100 comes before a group created at 80 without messages.
\<close>

theorem layout_views_sorted:
  "Layout st (Some sessionUserId) chatIds = Some (direct, groupsV) \<longrightarrow>
     descendingBy directKey direct \<and>
     (\<forall>item \<in> set direct. latestMessageTimestamp item = Some (directKey item)) \<and>
     descendingBy groupKey groupsV \<and>
     (\<forall>item \<in> set groupsV.
        groupKey item = max (orZero (createdAt (item_chat item))) (orZero (latestMessageTimestamp item))) \<and>
     (\<forall>item \<in> set direct. \<exists>c \<in> set chatIds.
        chats st c = Some (item_chat item) \<and>
        latestMessageTimestamp item =
          (if messages st c = [] then None else Some (timestamp (snd (last (messages st c))))) \<and>
        (scoredByTimestamp (messages st c) \<longrightarrow>
           latestMessageTimestamp item = mostRecent (messages st c))) \<and>
     (\<forall>item \<in> set groupsV. \<exists>c \<in> set chatIds.
        chats st c = Some (item_chat item) \<and>
        latestMessageTimestamp item =
          (if messages st c = [] then None else Some (timestamp (snd (last (messages st c))))) \<and>
        (scoredByTimestamp (messages st c) \<longrightarrow>
           latestMessageTimestamp item = mostRecent (messages st c))) \<and>
     (\<exists>items. loadItems st sessionUserId chatIds = Some items \<and>
        mset direct = mset (filter (\<lambda>item. hasMessages item \<and> isIndividualChat (item_chat item)) items) \<and>
        mset groupsV = mset (map TimedItem.truncate
          (filter (\<lambda>item. \<not> isIndividualChat (item_chat item) \<and>
                           isGroupChat (length (memberIds (item_chat item))) (name (item_chat item)))
             items)))"
proof
  assume run: "Layout st (Some sessionUserId) chatIds = Some (direct, groupsV)"
  then obtain items where items: "loadItems st sessionUserId chatIds = Some items"
    and d: "direct = individualChats items" and g: "groupsV = groupChats items"
    by (auto simp: Layout_def split: option.splits)
  have dk: "(\<lambda>a b. orZero (latestMessageTimestamp b) - orZero (latestMessageTimestamp a))
      = (\<lambda>(a :: FullItem) b. directKey b - directKey a)"
    by (simp add: directKey_def)
  have gk: "(\<lambda>a b. max (orZero (latestMessageTimestamp b)) (orZero (item_createdAt b)) -
                     max (orZero (latestMessageTimestamp a)) (orZero (item_createdAt a)))
      = (\<lambda>(a :: TimedItem) b. groupKey b - groupKey a)"
    by (simp add: groupKey_def max.commute)
  have 1: "descendingBy directKey direct"
    unfolding d individualChats_def dk by (rule descending_sortBy)
  have 3: "descendingBy groupKey groupsV"
    unfolding g groupChats_def gk by (rule descending_sortBy)
  have md: "mset direct = mset (filter (\<lambda>item. hasMessages item \<and> isIndividualChat (item_chat item)) items)"
    unfolding d individualChats_def
    by (simp add: mset_sortBy isIndividualChat_def conj_commute cong: conj_cong)
  have mg: "mset groupsV = mset (map TimedItem.truncate
          (filter (\<lambda>item. \<not> isIndividualChat (item_chat item) \<and>
                           isGroupChat (length (memberIds (item_chat item))) (name (item_chat item)))
             items))"
    unfolding g groupChats_def
    by (simp add: mset_sortBy isGroupChat_def cong: conj_cong)
  have 2: "\<forall>item \<in> set direct. latestMessageTimestamp item = Some (directKey item)"
  proof
    fix item assume "item \<in> set direct"
    then have "item \<in># mset direct" by simp
    then have "item \<in> set items" "hasMessages item" unfolding md by auto
    with loadItems_hasMessages [OF items]
    show "latestMessageTimestamp item = Some (directKey item)"
      by (auto simp: directKey_def orZero_def)
  qed
  have 4: "\<forall>item \<in> set groupsV.
        groupKey item = max (orZero (createdAt (item_chat item))) (orZero (latestMessageTimestamp item))"
  proof
    fix item assume "item \<in> set groupsV"
    then have "item \<in># mset groupsV" by simp
    then obtain full where "full \<in> set items" "item = TimedItem.truncate full"
      unfolding mg by auto
    with loadItems_createdAt [OF items]
    show "groupKey item = max (orZero (createdAt (item_chat item))) (orZero (latestMessageTimestamp item))"
      by (auto simp: groupKey_def TimedItem.truncate_def orZero_orNull)
  qed
  have 5: "\<forall>item \<in> set direct. \<exists>c \<in> set chatIds.
        chats st c = Some (item_chat item) \<and>
        latestMessageTimestamp item =
          (if messages st c = [] then None else Some (timestamp (snd (last (messages st c))))) \<and>
        (scoredByTimestamp (messages st c) \<longrightarrow>
           latestMessageTimestamp item = mostRecent (messages st c))"
  proof
    fix item assume "item \<in> set direct"
    then have "item \<in># mset direct" by simp
    then have "item \<in> set items" unfolding md by auto
    with loadItems_latest [OF items]
    show "\<exists>c \<in> set chatIds.
        chats st c = Some (item_chat item) \<and>
        latestMessageTimestamp item =
          (if messages st c = [] then None else Some (timestamp (snd (last (messages st c))))) \<and>
        (scoredByTimestamp (messages st c) \<longrightarrow>
           latestMessageTimestamp item = mostRecent (messages st c))"
      by blast
  qed
  have 6: "\<forall>item \<in> set groupsV. \<exists>c \<in> set chatIds.
        chats st c = Some (item_chat item) \<and>
        latestMessageTimestamp item =
          (if messages st c = [] then None else Some (timestamp (snd (last (messages st c))))) \<and>
        (scoredByTimestamp (messages st c) \<longrightarrow>
           latestMessageTimestamp item = mostRecent (messages st c))"
  proof
    fix item assume "item \<in> set groupsV"
    then have "item \<in># mset groupsV" by simp
    then obtain full where full: "full \<in> set items" and t: "item = TimedItem.truncate full"
      unfolding mg by auto
    from t have same: "item_chat item = item_chat full"
      "latestMessageTimestamp item = latestMessageTimestamp full"
      by (simp_all add: TimedItem.truncate_def)
    from loadItems_latest [OF items] full
    show "\<exists>c \<in> set chatIds.
        chats st c = Some (item_chat item) \<and>
        latestMessageTimestamp item =
          (if messages st c = [] then None else Some (timestamp (snd (last (messages st c))))) \<and>
        (scoredByTimestamp (messages st c) \<longrightarrow>
           latestMessageTimestamp item = mostRecent (messages st c))"
      unfolding same by blast
  qed
  from 1 2 3 4 5 6 md mg items show "descendingBy directKey direct \<and>
     (\<forall>item \<in> set direct. latestMessageTimestamp item = Some (directKey item)) \<and>
     descendingBy groupKey groupsV \<and>
     (\<forall>item \<in> set groupsV.
        groupKey item = max (orZero (createdAt (item_chat item))) (orZero (latestMessageTimestamp item))) \<and>
     (\<forall>item \<in> set direct. \<exists>c \<in> set chatIds.
        chats st c = Some (item_chat item) \<and>
        latestMessageTimestamp item =
          (if messages st c = [] then None else Some (timestamp (snd (last (messages st c))))) \<and>
        (scoredByTimestamp (messages st c) \<longrightarrow>
           latestMessageTimestamp item = mostRecent (messages st c))) \<and>
     (\<forall>item \<in> set groupsV. \<exists>c \<in> set chatIds.
        chats st c = Some (item_chat item) \<and>
        latestMessageTimestamp item =
          (if messages st c = [] then None else Some (timestamp (snd (last (messages st c))))) \<and>
        (scoredByTimestamp (messages st c) \<longrightarrow>
           latestMessageTimestamp item = mostRecent (messages st c))) \<and>
     (\<exists>items. loadItems st sessionUserId chatIds = Some items \<and>
        mset direct = mset (filter (\<lambda>item. hasMessages item \<and> isIndividualChat (item_chat item)) items) \<and>
        mset groupsV = mset (map TimedItem.truncate
          (filter (\<lambda>item. \<not> isIndividualChat (item_chat item) \<and>
                           isGroupChat (length (memberIds (item_chat item))) (name (item_chat item)))
             items)))"
    by blast
qed

lemma demo_layout:
  "Layout demo (Some ''a'') [''g2'', ''a--b'', ''g1''] =
     Some ([\<lparr>item_chat = dm_ab, displayName = ''Bob'', latestMessageTimestamp = Some 90,
              item_createdAt = None, hasMessages = True, chatPartner = Some bob\<rparr>],
           [\<lparr>item_chat = study, displayName = ''Study Group'', latestMessageTimestamp = Some 100,
              item_createdAt = Some 50\<rparr>,
            \<lparr>item_chat = quiet, displayName = ''Carol'', latestMessageTimestamp = None,
              item_createdAt = Some 80\<rparr>])"
  by (simp add: Layout_def loadItem_def demo_def dm_ab_def study_def quiet_def hello_def hi_ab_def
      old_ab_def alice_def bob_def carol_def orNull_def orZero_def individualChats_def
      groupChats_def sortBy_def isIndividualChat_def SENTINEL_def TimedItem.truncate_def Let_def)

theorem layout_views_sorted_witness:
  "Layout demo (Some ''a'') [''g2'', ''a--b'', ''g1''] =
     Some ([\<lparr>item_chat = dm_ab, displayName = ''Bob'', latestMessageTimestamp = Some 90,
              item_createdAt = None, hasMessages = True, chatPartner = Some bob\<rparr>],
           [\<lparr>item_chat = study, displayName = ''Study Group'', latestMessageTimestamp = Some 100,
              item_createdAt = Some 50\<rparr>,
            \<lparr>item_chat = quiet, displayName = ''Carol'', latestMessageTimestamp = None,
              item_createdAt = Some 80\<rparr>]) \<and>
   descendingBy groupKey
     [\<lparr>item_chat = study, displayName = ''Study Group'', latestMessageTimestamp = Some 100,
        item_createdAt = Some 50\<rparr>,
      \<lparr>item_chat = quiet, displayName = ''Carol'', latestMessageTimestamp = None,
        item_createdAt = Some 80\<rparr>] \<and>
   groupKey \<lparr>item_chat = study, displayName = ''Study Group'', latestMessageTimestamp = Some 100,
              item_createdAt = Some 50\<rparr> = 100 \<and>
   groupKey \<lparr>item_chat = quiet, displayName = ''Carol'', latestMessageTimestamp = None,
              item_createdAt = Some 80\<rparr> = 80 \<and>
   messages demo ''a--b'' = [(10, old_ab), (90, hi_ab)] \<and>
   scoredByTimestamp (messages demo ''a--b'') \<and>
   mostRecent (messages demo ''a--b'') = Some 90"
proof -
  let ?d = "\<lparr>item_chat = dm_ab, displayName = ''Bob'', latestMessageTimestamp = Some 90,
              item_createdAt = None, hasMessages = True, chatPartner = Some bob\<rparr>"
  let ?a = "\<lparr>item_chat = study, displayName = ''Study Group'', latestMessageTimestamp = Some 100,
              item_createdAt = Some 50\<rparr>"
  let ?b = "\<lparr>item_chat = quiet, displayName = ''Carol'', latestMessageTimestamp = None,
              item_createdAt = Some 80\<rparr>"
  have log: "messages demo ''a--b'' = [(10, old_ab), (90, hi_ab)]"
    by (simp add: demo_def)
  have scored: "scoredByTimestamp (messages demo ''a--b'')"
    by (simp add: log scoredByTimestamp_def old_ab_def hi_ab_def)
  have stored: "\<And>c. chats demo c = Some dm_ab \<Longrightarrow> c = ''a--b''"
    by (simp add: demo_def dm_ab_def study_def quiet_def SENTINEL_def split: if_splits)
  from layout_views_sorted [of demo "''a''" "[''g2'', ''a--b'', ''g1'']" "[?d]" "[?a, ?b]"] demo_layout
  have sorted: "descendingBy groupKey [?a, ?b]"
    and link: "\<forall>item \<in> set [?d]. \<exists>c \<in> set [''g2'', ''a--b'', ''g1''].
        chats demo c = Some (item_chat item) \<and>
        latestMessageTimestamp item =
          (if messages demo c = [] then None else Some (timestamp (snd (last (messages demo c))))) \<and>
        (scoredByTimestamp (messages demo c) \<longrightarrow>
           latestMessageTimestamp item = mostRecent (messages demo c))"
    by blast+
  from link obtain c where "chats demo c = Some dm_ab"
    and "scoredByTimestamp (messages demo c) \<longrightarrow> Some 90 = mostRecent (messages demo c)"
    by auto
  with stored scored have recent: "mostRecent (messages demo ''a--b'') = Some 90"
    by auto
  have keys: "groupKey ?a = 100" "groupKey ?b = 80"
    by (simp_all add: groupKey_def orZero_def)
  from demo_layout sorted keys log scored recent show ?thesis by simp
qed

section \<open>C9: chat events in the sidebar\<close>

lemma knownChat_list_ex:
  "list_ex (\<lambda>item. chat_id (item_chat item) = i) prev \<longleftrightarrow> knownChat i prev"
  by (auto simp: knownChat_def list_ex_iff)

lemma chatUpdateHandler_ids:
  "chat_id dataChat = dataChatId \<Longrightarrow>
     map (\<lambda>item. chat_id (item_chat item)) (chatUpdateHandler dataChatId dataChat prev) =
     map (\<lambda>item. chat_id (item_chat item)) prev"
  by (simp add: chatUpdateHandler_def)

lemma chatUpdateHandler_twice:
  "chat_id dataChat = dataChatId \<Longrightarrow>
     chatUpdateHandler dataChatId dataChat (chatUpdateHandler dataChatId dataChat prev) =
     chatUpdateHandler dataChatId dataChat prev"
  by (simp add: chatUpdateHandler_def)

lemma addedToChatHandler_twice:
  "chat_id dataChat = dataChatId \<Longrightarrow>
     addedToChatHandler view dataChatId dataChat (addedToChatHandler view dataChatId dataChat prev) =
     addedToChatHandler view dataChatId dataChat prev"
  by (simp add: addedToChatHandler_def)

lemma addedToChatHandler_distinct:
  "chat_id dataChat = dataChatId \<Longrightarrow>
     distinct (map (\<lambda>item. chat_id (item_chat item)) prev) \<Longrightarrow>
     distinct (map (\<lambda>item. chat_id (item_chat item)) (addedToChatHandler view dataChatId dataChat prev))"
  by (auto simp: addedToChatHandler_def list_ex_iff)

text \<open>
  Claim C9, as the code has it, for an event whose payload names the id of the chat it
  carries. \<open>chat_updated\<close>: the ids of the list and their positions stay; the entry of
  the payload's id is replaced by the payload's chat, keeping its display name when the
  payload is a direct message and taking the payload's name when it is a group; every
  other entry stays. \<open>added_to_chat\<close> and \<open>chat_created\<close> do the same as each other: a
  known id leaves the list as it is, an unknown id is appended with the payload's name as
  display name when the view admits its classification, and distinct ids stay distinct.
  Handling an event twice is handling it once.
\<close>

theorem sidebar_events:
  assumes "chat_id dataChat = dataChatId"
  shows
   "map (\<lambda>item. chat_id (item_chat item)) (chatUpdateHandler dataChatId dataChat prev) =
      map (\<lambda>item. chat_id (item_chat item)) prev \<and>
    (\<forall>i < length prev.
       chatUpdateHandler dataChatId dataChat prev ! i =
         (if chat_id (item_chat (prev ! i)) = dataChatId
          then \<lparr>item_chat = dataChat,
                displayName = (if isIndividualChat dataChat then displayName (prev ! i)
                               else name dataChat)\<rparr>
          else prev ! i)) \<and>
    chatUpdateHandler dataChatId dataChat (chatUpdateHandler dataChatId dataChat prev) =
      chatUpdateHandler dataChatId dataChat prev \<and>
    (knownChat dataChatId prev \<longrightarrow> addedToChatHandler view dataChatId dataChat prev = prev) \<and>
    (\<not> knownChat dataChatId prev \<longrightarrow>
       addedToChatHandler view dataChatId dataChat prev =
         (if view = None \<or> (view = Some chatsView) = isIndividualChat dataChat
          then prev @ [\<lparr>item_chat = dataChat, displayName = name dataChat\<rparr>]
          else prev)) \<and>
    addedToChatHandler view dataChatId dataChat (addedToChatHandler view dataChatId dataChat prev) =
      addedToChatHandler view dataChatId dataChat prev \<and>
    (distinct (map (\<lambda>item. chat_id (item_chat item)) prev) \<longrightarrow>
       distinct (map (\<lambda>item. chat_id (item_chat item))
         (addedToChatHandler view dataChatId dataChat prev))) \<and>
    chatCreatedHandler view dataChat prev = addedToChatHandler view dataChatId dataChat prev"
proof -
  have view_cases: "view = None \<or> view = Some chatsView \<or> view = Some groupsView"
    by (cases view) (auto intro: viewType.exhaust)
  have fresh: "addedToChatHandler view dataChatId dataChat prev =
         (if view = None \<or> (view = Some chatsView) = isIndividualChat dataChat
          then prev @ [\<lparr>item_chat = dataChat, displayName = name dataChat\<rparr>]
          else prev)" if "\<not> knownChat dataChatId prev"
    using that view_cases by (auto simp: addedToChatHandler_def knownChat_list_ex)
  have created: "chatCreatedHandler view dataChat prev = addedToChatHandler view dataChatId dataChat prev"
    using assms by (simp add: chatCreatedHandler_def addedToChatHandler_def)
  show ?thesis
    using chatUpdateHandler_ids [OF assms] chatUpdateHandler_twice [OF assms]
      addedToChatHandler_twice [OF assms] addedToChatHandler_distinct [OF assms] fresh created
    by (simp add: chatUpdateHandler_def addedToChatHandler_def knownChat_list_ex)
qed

theorem sidebar_events_witness:
  "chat_id (study\<lparr>name := ''Algebra''\<rparr>) = ''g1'' \<and>
   chatUpdateHandler ''g1'' (study\<lparr>name := ''Algebra''\<rparr>)
     [\<lparr>item_chat = dm_ab, displayName = ''Bob''\<rparr>, \<lparr>item_chat = study, displayName = ''Study Group''\<rparr>]
   = [\<lparr>item_chat = dm_ab, displayName = ''Bob''\<rparr>,
      \<lparr>item_chat = study\<lparr>name := ''Algebra''\<rparr>, displayName = ''Algebra''\<rparr>] \<and>
   chat_id (dm_ab\<lparr>createdAt := Some 5\<rparr>) = ''a--b'' \<and>
   chatUpdateHandler ''a--b'' (dm_ab\<lparr>createdAt := Some 5\<rparr>)
     [\<lparr>item_chat = dm_ab, displayName = ''Bob''\<rparr>, \<lparr>item_chat = study, displayName = ''Study Group''\<rparr>]
   = [\<lparr>item_chat = dm_ab\<lparr>createdAt := Some 5\<rparr>, displayName = ''Bob''\<rparr>,
      \<lparr>item_chat = study, displayName = ''Study Group''\<rparr>] \<and>
   addedToChatHandler (Some groupsView) ''g1'' (study\<lparr>name := ''Algebra''\<rparr>) [] =
     [\<lparr>item_chat = study\<lparr>name := ''Algebra''\<rparr>, displayName = ''Algebra''\<rparr>]"
proof -
  let ?prev = "[\<lparr>item_chat = dm_ab, displayName = ''Bob''\<rparr>,
                \<lparr>item_chat = study, displayName = ''Study Group''\<rparr>]"
  have g: "chat_id (study\<lparr>name := ''Algebra''\<rparr>) = ''g1''" by (simp add: study_def)
  have d: "chat_id (dm_ab\<lparr>createdAt := Some 5\<rparr>) = ''a--b''" by (simp add: dm_ab_def)
  have ng: "\<not> isIndividualChat (study\<lparr>name := ''Algebra''\<rparr>)"
    by (simp add: isIndividualChat_def study_def)
  have id: "isIndividualChat (dm_ab\<lparr>createdAt := Some 5\<rparr>)"
    by (simp add: isIndividualChat_def dm_ab_def)
  have ids: "chat_id (item_chat (?prev ! 0)) = ''a--b''" "chat_id (item_chat (?prev ! 1)) = ''g1''"
    by (simp_all add: dm_ab_def study_def)
  from sidebar_events [OF g, of ?prev] ng ids
  have "chatUpdateHandler ''g1'' (study\<lparr>name := ''Algebra''\<rparr>) ?prev ! 0 = ?prev ! 0"
    and "chatUpdateHandler ''g1'' (study\<lparr>name := ''Algebra''\<rparr>) ?prev ! 1 =
          \<lparr>item_chat = study\<lparr>name := ''Algebra''\<rparr>, displayName = ''Algebra''\<rparr>"
    and "length (chatUpdateHandler ''g1'' (study\<lparr>name := ''Algebra''\<rparr>) ?prev) = 2"
    by (simp_all add: chatUpdateHandler_def)
  then have 1: "chatUpdateHandler ''g1'' (study\<lparr>name := ''Algebra''\<rparr>) ?prev =
      [\<lparr>item_chat = dm_ab, displayName = ''Bob''\<rparr>,
       \<lparr>item_chat = study\<lparr>name := ''Algebra''\<rparr>, displayName = ''Algebra''\<rparr>]"
    by (simp add: chatUpdateHandler_def)
  have 2: "chatUpdateHandler ''a--b'' (dm_ab\<lparr>createdAt := Some 5\<rparr>) ?prev =
      [\<lparr>item_chat = dm_ab\<lparr>createdAt := Some 5\<rparr>, displayName = ''Bob''\<rparr>,
       \<lparr>item_chat = study, displayName = ''Study Group''\<rparr>]"
    using id by (simp add: chatUpdateHandler_def dm_ab_def study_def)
  from sidebar_events [OF g, of "[]" "Some groupsView"] ng
  have 3: "addedToChatHandler (Some groupsView) ''g1'' (study\<lparr>name := ''Algebra''\<rparr>) [] =
     [\<lparr>item_chat = study\<lparr>name := ''Algebra''\<rparr>, displayName = ''Algebra''\<rparr>]"
    by (simp add: knownChat_def)
  from g d 1 2 3 show ?thesis by simp
qed

text \<open>
  The claim as it is written has the payload's name used for every group entry on each of
  the three events. \<open>added_to_chat\<close> and \<open>chat_created\<close> return the list untouched for a
  known chat id: the entry of the group \<open>g1\<close> keeps the display name \<open>Study Group\<close> when
  the payload carries the name \<open>Algebra\<close>.
\<close>

theorem added_to_known_group_counterexample:
  "knownChat ''g1'' [\<lparr>item_chat = study, displayName = ''Study Group''\<rparr>] \<and>
   chat_id (study\<lparr>name := ''Algebra''\<rparr>) = ''g1'' \<and>
   \<not> isIndividualChat (study\<lparr>name := ''Algebra''\<rparr>) \<and>
   addedToChatHandler (Some groupsView) ''g1'' (study\<lparr>name := ''Algebra''\<rparr>)
     [\<lparr>item_chat = study, displayName = ''Study Group''\<rparr>]
   = [\<lparr>item_chat = study, displayName = ''Study Group''\<rparr>] \<and>
   chatCreatedHandler (Some groupsView) (study\<lparr>name := ''Algebra''\<rparr>)
     [\<lparr>item_chat = study, displayName = ''Study Group''\<rparr>]
   = [\<lparr>item_chat = study, displayName = ''Study Group''\<rparr>] \<and>
   ''Study Group'' \<noteq> name (study\<lparr>name := ''Algebra''\<rparr>)"
  by (simp add: knownChat_def addedToChatHandler_def chatCreatedHandler_def isIndividualChat_def
      study_def)

section \<open>C2: classification at the call sites\<close>

lemma create_solo:
  "POST_create demo (Some ''a'') (Some ''Direct message'') [''a''] ''n1'' 7000 =
     (Response (ChatBody solo) 201,
      [DbSet solo, DbSAdd ''a'' ''n1'',
       Trigger (UserChatsChannel ''a'') ''chat_created'' (ChatPayload solo)])"
  by (simp add: POST_create_def solo_def SENTINEL_def trim_def isWhiteSpace_def Let_def)

text \<open>
  Claim C2 has every chat that is not a direct message classified as a group, at every
  call site. The chat page and the layout compute
  \<open>length > 2 || (length >= 1 && name !== "Direct message")\<close> instead of the negation of
  the direct-message test. Alice creates a chat of herself alone under the name
  \<open>Direct message\<close>: it is not a direct message, the page renders it with \<open>isGroupChat\<close>
  and \<open>isTwoPersonChat\<close> both false, the layout puts it in neither view, and the sidebar
  handler, which negates the direct-message test, admits it to the group view only.
\<close>

theorem one_member_sentinel_chat_is_no_group_on_page:
  "fst (POST_create demo (Some ''a'') (Some ''Direct message'') [''a''] ''n1'' 7000) =
     Response (ChatBody solo) 201 \<and>
   chats (exec demo (snd (POST_create demo (Some ''a'') (Some ''Direct message'') [''a''] ''n1'' 7000)))
     ''n1'' = Some solo \<and>
   \<not> isIndividualChat solo \<and>
   fst (page (exec demo (snd (POST_create demo (Some ''a'') (Some ''Direct message'') [''a''] ''n1'' 7000)))
          (Some ''a'') ''n1'') = Rendered solo False False \<and>
   Layout (exec demo (snd (POST_create demo (Some ''a'') (Some ''Direct message'') [''a''] ''n1'' 7000)))
     (Some ''a'') [''n1''] = Some ([], []) \<and>
   addedToChatHandler (Some groupsView) ''n1'' solo [] = [\<lparr>item_chat = solo, displayName = SENTINEL\<rparr>] \<and>
   addedToChatHandler (Some chatsView) ''n1'' solo [] = []"
proof -
  let ?st = "exec demo (snd (POST_create demo (Some ''a'') (Some ''Direct message'') [''a''] ''n1'' 7000))"
  have c: "chats ?st ''n1'' = Some solo"
    by (simp add: create_solo) (simp add: solo_def)
  have m: "messages ?st ''n1'' = []"
    by (simp add: create_solo) (simp add: demo_def)
  have n: "\<not> isIndividualChat solo"
    by (simp add: isIndividualChat_def solo_def)
  have p: "fst (page ?st (Some ''a'') ''n1'') = Rendered solo False False"
    unfolding page_def renderChat_def
    by (simp add: c) (simp add: solo_def isGroupChat_def isTwoPersonChat_def)
  have i: "loadItem ?st ''a'' ''n1'' =
      Some \<lparr>item_chat = solo, displayName = SENTINEL, latestMessageTimestamp = None,
            item_createdAt = Some 7000, hasMessages = False, chatPartner = None\<rparr>"
    unfolding loadItem_def by (simp add: c m) (simp add: solo_def orNull_def)
  have l: "Layout ?st (Some ''a'') [''n1''] = Some ([], [])"
    unfolding Layout_def
    by (simp add: i) (simp add: solo_def individualChats_def groupChats_def sortBy_def
        isIndividualChat_def)
  have a: "addedToChatHandler (Some groupsView) ''n1'' solo [] = [\<lparr>item_chat = solo, displayName = SENTINEL\<rparr>]"
    "addedToChatHandler (Some chatsView) ''n1'' solo [] = []"
    using n by (simp_all add: addedToChatHandler_def) (simp add: solo_def)
  from c n p l a show ?thesis by (simp add: create_solo)
qed

end
